theory Spec2Isabelle
  imports Complex_Main
begin

section \<open>Data model\<close>

text \<open>
  The two dashboard modules (the unnamed module and \<^verbatim>\<open>src/pages/AdminDashboard.tsx\<close>)
  declare the same \<^verbatim>\<open>Booking\<close> interface. Timestamps, which the source keeps as ISO
  strings, are milliseconds since the epoch here, the value \<^verbatim>\<open>Date.getTime()\<close> reads.
  The field \<^verbatim>\<open>id\<close> is called \<open>bid\<close>.
\<close>

datatype booking_status = Pending | Code_sent | Confirmed | Rejected | Cancelled

record booking =
  bid :: string
  workspace_type :: string
  date :: string
  time_slot :: string
  duration :: string
  customer_name :: string
  customer_email :: string
  customer_phone :: string
  customer_whatsapp :: string
  total_price :: int
  status :: booking_status
  confirmation_code :: "string option"
  created_at :: int
  updated_at :: int
  user_id :: "string option"
  desk_number :: "int option"

text \<open>
  A row of the table \<^verbatim>\<open>user_sessions\<close>, with the columns the dashboard reads and writes.
  \<^verbatim>\<open>id\<close> is \<open>sid\<close>, \<^verbatim>\<open>user_id\<close> is \<open>s_user_id\<close>, \<^verbatim>\<open>status\<close> is \<open>s_status\<close>.
\<close>

datatype session_status = Active | Completed

record user_session =
  sid :: string
  s_user_id :: string
  booking_id :: "string option"
  session_type :: string
  start_time :: int
  end_time :: "int option"
  duration_minutes :: "int option"
  s_status :: session_status
  started_by :: "string option"
  ended_by :: "string option"
  confirmation_required :: bool

text \<open>The signed-in operator of \<^verbatim>\<open>useAuth()\<close>; the component renders only for a
  non-null user, so \<^verbatim>\<open>user?.id\<close> is the operator's id in every handler.\<close>

record app_user =
  uid :: string
  uname :: string

text \<open>The authoritative store: the two tables behind the \<^verbatim>\<open>supabase\<close> client.\<close>

record db =
  bookings_tbl :: "booking list"
  user_sessions_tbl :: "user_session list"

text \<open>What a handler shows the operator: toasts and console output.\<close>

datatype ui_event =
    toast_success string
  | toast_session_ended int int
  | toast_error string
  | console_error string

text \<open>
  The outcome of the \<^verbatim>\<open>fetch\<close> call to the webhook. \<^verbatim>\<open>fetch\<close> rejects (throws under
  \<^verbatim>\<open>await\<close>) on a network failure; an HTTP response of any status code resolves. The
  handlers pass no timeout and no abort signal, so a request that gets no answer stays
  pending, and the handler that awaits it goes no further.
\<close>

datatype fetch_outcome = Response nat | NetworkFailure | Never_settles

fun fetch_throws :: "fetch_outcome \<Rightarrow> bool" where
  "fetch_throws (Response c) = False"
| "fetch_throws NetworkFailure = True"
| "fetch_throws Never_settles = False"

fun fetch_settles :: "fetch_outcome \<Rightarrow> bool" where
  "fetch_settles (Response c) = True"
| "fetch_settles NetworkFailure = True"
| "fetch_settles Never_settles = False"

section \<open>Store primitives\<close>

text \<open>\<^verbatim>\<open>.update(patch).eq('id', k)\<close>: every row whose key equals \<open>k\<close> is patched; no
  matching row is not an error.\<close>

definition update_eq :: "('r \<Rightarrow> string) \<Rightarrow> string \<Rightarrow> ('r \<Rightarrow> 'r) \<Rightarrow> 'r list \<Rightarrow> 'r list" where
  "update_eq key k patch rows = map (\<lambda>r. if key r = k then patch r else r) rows"

text \<open>\<^verbatim>\<open>.maybeSingle()\<close>: no row gives null data and no error, one row gives the row, more
  rows give null data and the error code PGRST116.\<close>

fun maybeSingle :: "'r list \<Rightarrow> 'r option \<times> string option" where
  "maybeSingle [] = (None, None)"
| "maybeSingle [r] = (Some r, None)"
| "maybeSingle (r # r' # rs) = (None, Some ''PGRST116'')"

text \<open>\<^verbatim>\<open>.single()\<close>: exactly one row is required; otherwise the error code PGRST116.\<close>

fun single :: "'r list \<Rightarrow> 'r option \<times> string option" where
  "single [r] = (Some r, None)"
| "single rs = (None, Some ''PGRST116'')"

text \<open>JavaScript truthiness of an optional string argument: \<^verbatim>\<open>undefined\<close> and the empty
  string are falsy.\<close>

fun truthy :: "string option \<Rightarrow> bool" where
  "truthy None = False"
| "truthy (Some s) = (s \<noteq> [])"

fun status_str :: "booking_status \<Rightarrow> string" where
  "status_str Pending = ''pending''"
| "status_str Code_sent = ''code_sent''"
| "status_str Confirmed = ''confirmed''"
| "status_str Rejected = ''rejected''"
| "status_str Cancelled = ''cancelled''"

section \<open>updateBookingStatus\<close>

text \<open>
  \<^verbatim>\<open>updateBookingStatus(bookingId, newStatus, confirmationCode?)\<close>, the same in both
  modules up to the webhook's action string and the wording of the success toast (the
  unnamed module's is used). \<open>bookings\<close> is the component's local list (the operator's
  view), \<open>now\<close> the clock reading of \<^verbatim>\<open>new Date()\<close>, \<open>store_err\<close> the \<^verbatim>\<open>error\<close> the
  store returns for the update (a failed update changes no row) and \<open>hook\<close> the outcome
  of the webhook request, which is sent, and awaited, only when the booking is in the
  local list. \<^verbatim>\<open>newStatus\<close>, a string in the source, ranges over the statuses of the
  \<^verbatim>\<open>Booking\<close> interface. The handler returns nothing; what it did is the list of events
  it has shown and the new store. A handler whose webhook request never settles has
  committed its update and shows nothing more. The refresh of the local list that
  follows a success is not awaited and is not part of the handler's result.
\<close>

definition updateData :: "int \<Rightarrow> booking_status \<Rightarrow> string option \<Rightarrow> booking \<Rightarrow> booking" where
  "updateData now newStatus confirmationCode b =
     (let b1 = b\<lparr>status := newStatus, updated_at := now\<rparr>
      in if truthy confirmationCode then b1\<lparr>confirmation_code := confirmationCode\<rparr> else b1)"

definition updateBookingStatus ::
  "booking list \<Rightarrow> int \<Rightarrow> string option \<Rightarrow> fetch_outcome \<Rightarrow>
   string \<Rightarrow> booking_status \<Rightarrow> string option \<Rightarrow> db \<Rightarrow> ui_event list \<times> db" where
  "updateBookingStatus bookings now store_err hook bookingId newStatus confirmationCode d =
     (case store_err of
        Some e \<Rightarrow>
          ([console_error ''Error updating booking status:'',
            toast_error ''Failed to update booking status''], d)
      | None \<Rightarrow>
          (let d' = d\<lparr>bookings_tbl :=
                       update_eq bid bookingId (updateData now newStatus confirmationCode)
                         (bookings_tbl d)\<rparr>;
               toast = toast_success (''Booking '' @ status_str newStatus @ '' successfully'')
           in case find (\<lambda>b. bid b = bookingId) bookings of
                None \<Rightarrow> ([toast], d')
              | Some booking \<Rightarrow>
                  if \<not> fetch_settles hook then ([], d')
                  else ((if fetch_throws hook then [console_error ''Webhook failed:''] else [])
                          @ [toast], d')))"

text \<open>The status buttons a booking row offers, by the status the row displays
  (the local list's): only a pending row has any.\<close>

fun offered_targets :: "booking_status \<Rightarrow> booking_status list" where
  "offered_targets Pending = [Code_sent, Confirmed, Rejected]"
| "offered_targets s = []"

text \<open>A handler succeeded when it showed a success toast, and failed when it showed an
  error toast.\<close>

fun is_success :: "ui_event \<Rightarrow> bool" where
  "is_success (toast_success m) = True"
| "is_success (toast_session_ended h m) = True"
| "is_success e = False"

fun is_failure :: "ui_event \<Rightarrow> bool" where
  "is_failure (toast_error m) = True"
| "is_failure e = False"

definition succeeded :: "ui_event list \<Rightarrow> bool" where
  "succeeded evs = (filter is_success evs \<noteq> [])"

definition failed :: "ui_event list \<Rightarrow> bool" where
  "failed evs = (filter is_failure evs \<noteq> [])"

text \<open>The status the store holds for a booking id (of the first row with that id).\<close>

definition stored_status :: "db \<Rightarrow> string \<Rightarrow> booking_status option" where
  "stored_status d k = map_option status (find (\<lambda>b. bid b = k) (bookings_tbl d))"

definition stored_code :: "db \<Rightarrow> string \<Rightarrow> string option" where
  "stored_code d k =
     (case find (\<lambda>b. bid b = k) (bookings_tbl d) of None \<Rightarrow> None | Some b \<Rightarrow> confirmation_code b)"

section \<open>startBookingSession\<close>

text \<open>JavaScript \<^verbatim>\<open>a || b\<close> on an optional string: \<open>b\<close> when \<open>a\<close> is null or empty.\<close>

fun or_else :: "string option \<Rightarrow> string \<Rightarrow> string" where
  "or_else None d = d"
| "or_else (Some s) d = (if s = [] then d else s)"

text \<open>
  \<^verbatim>\<open>startBookingSession(bookingId)\<close> of the unnamed module awaits two store calls: the
  query for an existing session of the booking, and the insert. Each is one function
  here, since another handler can run between the two. The first looks the booking up in
  the local list, runs the query (\<open>check_err\<close> is an error code the store returns instead
  of rows) and decides whether to go on.
\<close>

datatype start_check = Proceed booking | Stop "ui_event list"

definition start_failed :: "ui_event list" where
  "start_failed = [console_error ''Error starting booking session:'',
                   toast_error ''Failed to start booking session'']"

definition startBookingSession_check ::
  "booking list \<Rightarrow> string option \<Rightarrow> string \<Rightarrow> db \<Rightarrow> start_check" where
  "startBookingSession_check bookings check_err bookingId d =
     (case find (\<lambda>b. bid b = bookingId) bookings of
        None \<Rightarrow> Stop start_failed
      | Some booking \<Rightarrow>
          (let (existingSession, checkError) =
                 (case check_err of
                    Some c \<Rightarrow> (None, Some c)
                  | None \<Rightarrow> maybeSingle
                      (filter (\<lambda>s. booking_id s = Some bookingId) (user_sessions_tbl d)))
           in if checkError \<noteq> None \<and> checkError \<noteq> Some ''PGRST116'' then Stop start_failed
              else (case existingSession of
                      None \<Rightarrow> Proceed booking
                    | Some s \<Rightarrow>
                        if s_status s = Active
                        then Stop [toast_error ''Session is already active for this booking'']
                        else Proceed booking)))"

text \<open>
  The insert. The row names \<^verbatim>\<open>user_id\<close>, \<^verbatim>\<open>booking_id\<close>, \<^verbatim>\<open>session_type\<close>,
  \<^verbatim>\<open>started_by\<close> and \<^verbatim>\<open>status\<close>; the store fills in the rest: the key \<open>new_id\<close>, the
  start time \<open>db_now\<close>, and nulls.
\<close>

definition startBookingSession_insert ::
  "app_user \<Rightarrow> string option \<Rightarrow> string \<Rightarrow> int \<Rightarrow> string \<Rightarrow> booking \<Rightarrow> db \<Rightarrow>
   ui_event list \<times> db" where
  "startBookingSession_insert user insert_err new_id db_now bookingId booking d =
     (case insert_err of
        Some e \<Rightarrow> (start_failed, d)
      | None \<Rightarrow>
          ([toast_success ''Booking session started successfully''],
           d\<lparr>user_sessions_tbl := user_sessions_tbl d @
               [\<lparr>sid = new_id,
                 s_user_id = or_else (user_id booking) (uid user),
                 booking_id = Some bookingId,
                 session_type = ''booking'',
                 start_time = db_now,
                 end_time = None,
                 duration_minutes = None,
                 s_status = Active,
                 started_by = Some (uid user),
                 ended_by = None,
                 confirmation_required = False\<rparr>]\<rparr>))"

definition startBookingSession ::
  "app_user \<Rightarrow> booking list \<Rightarrow> string option \<Rightarrow> string option \<Rightarrow> string \<Rightarrow> int \<Rightarrow>
   string \<Rightarrow> db \<Rightarrow> ui_event list \<times> db" where
  "startBookingSession user bookings check_err insert_err new_id db_now bookingId d =
     (case startBookingSession_check bookings check_err bookingId d of
        Stop evs \<Rightarrow> (evs, d)
      | Proceed booking \<Rightarrow>
          startBookingSession_insert user insert_err new_id db_now bookingId booking d)"

text \<open>
  \<^verbatim>\<open>startBookingSession(bookingId, userId)\<close> of \<^verbatim>\<open>src/pages/AdminDashboard.tsx\<close>: it
  refuses a booking without a user, and its query is for an active session of the user.
\<close>

definition start_failed_page :: "ui_event list" where
  "start_failed_page = [console_error ''Error starting booking session:'',
                        toast_error ''Failed to start session'']"

definition startBookingSession_page ::
  "app_user \<Rightarrow> string option \<Rightarrow> string option \<Rightarrow> string \<Rightarrow> int \<Rightarrow>
   string \<Rightarrow> string option \<Rightarrow> db \<Rightarrow> ui_event list \<times> db" where
  "startBookingSession_page user check_err insert_err new_id db_now bookingId userId d =
     (if \<not> truthy userId
      then ([toast_error ''Cannot start session: No user associated with this booking''], d)
      else
        (let u = or_else userId [];
             (existingSession, checkError) =
               (case check_err of
                  Some c \<Rightarrow> (None, Some c)
                | None \<Rightarrow> maybeSingle
                    (filter (\<lambda>s. s_user_id s = u \<and> s_status s = Active) (user_sessions_tbl d)))
         in if checkError \<noteq> None \<and> checkError \<noteq> Some ''PGRST116''
            then (start_failed_page, d)
            else (case existingSession of
                    Some s \<Rightarrow> ([toast_error ''User already has an active session''], d)
                  | None \<Rightarrow>
                      (case insert_err of
                         Some e \<Rightarrow> (start_failed_page, d)
                       | None \<Rightarrow>
                           ([toast_success ''Booking session started successfully''],
                            d\<lparr>user_sessions_tbl := user_sessions_tbl d @
                                [\<lparr>sid = new_id,
                                  s_user_id = u,
                                  booking_id = Some bookingId,
                                  session_type = ''booking'',
                                  start_time = db_now,
                                  end_time = None,
                                  duration_minutes = None,
                                  s_status = Active,
                                  started_by = Some (uid user),
                                  ended_by = None,
                                  confirmation_required = False\<rparr>]\<rparr>)))))"

text \<open>
  The same handler in its two awaited store calls, as for the unnamed module: the query
  with the decision that follows it, and the insert.
\<close>

datatype page_check = Proceed_page string | Stop_page "ui_event list"

definition startBookingSession_page_check :: "string option \<Rightarrow> string option \<Rightarrow> db \<Rightarrow> page_check" where
  "startBookingSession_page_check check_err userId d =
     (if \<not> truthy userId
      then Stop_page [toast_error ''Cannot start session: No user associated with this booking'']
      else
        (let u = or_else userId [];
             (existingSession, checkError) =
               (case check_err of
                  Some c \<Rightarrow> (None, Some c)
                | None \<Rightarrow> maybeSingle
                    (filter (\<lambda>s. s_user_id s = u \<and> s_status s = Active) (user_sessions_tbl d)))
         in if checkError \<noteq> None \<and> checkError \<noteq> Some ''PGRST116''
            then Stop_page start_failed_page
            else (case existingSession of
                    Some s \<Rightarrow> Stop_page [toast_error ''User already has an active session'']
                  | None \<Rightarrow> Proceed_page u)))"

definition page_session :: "app_user \<Rightarrow> string \<Rightarrow> int \<Rightarrow> string \<Rightarrow> string \<Rightarrow> user_session" where
  "page_session user new_id db_now bookingId u =
     \<lparr>sid = new_id, s_user_id = u, booking_id = Some bookingId, session_type = ''booking'',
      start_time = db_now, end_time = None, duration_minutes = None, s_status = Active,
      started_by = Some (uid user), ended_by = None, confirmation_required = False\<rparr>"

definition startBookingSession_page_insert ::
  "app_user \<Rightarrow> string option \<Rightarrow> string \<Rightarrow> int \<Rightarrow> string \<Rightarrow> string \<Rightarrow> db \<Rightarrow>
   ui_event list \<times> db" where
  "startBookingSession_page_insert user insert_err new_id db_now bookingId u d =
     (case insert_err of
        Some e \<Rightarrow> (start_failed_page, d)
      | None \<Rightarrow>
          ([toast_success ''Booking session started successfully''],
           d\<lparr>user_sessions_tbl := user_sessions_tbl d @
               [page_session user new_id db_now bookingId u]\<rparr>))"

text \<open>The active sessions the store holds for a booking.\<close>

definition active_sessions_of :: "db \<Rightarrow> string \<Rightarrow> user_session list" where
  "active_sessions_of d k =
     filter (\<lambda>s. booking_id s = Some k \<and> s_status s = Active) (user_sessions_tbl d)"

subsection \<open>Two handlers running at once\<close>

text \<open>
  A start handler is at one of three points: before its query, between its query and
  its insert, or done. A schedule says which of two handlers takes the next step.
\<close>

datatype 'a start_pc = Not_started | Checked 'a | Finished "ui_event list"

record start_call =
  sc_user :: app_user
  sc_bookings :: "booking list"
  sc_check_err :: "string option"
  sc_insert_err :: "string option"
  sc_new_id :: string
  sc_db_now :: int
  sc_bookingId :: string

fun start_step :: "start_call \<Rightarrow> booking start_pc \<times> db \<Rightarrow> booking start_pc \<times> db" where
  "start_step c (Not_started, d) =
     (case startBookingSession_check (sc_bookings c) (sc_check_err c) (sc_bookingId c) d of
        Stop evs \<Rightarrow> (Finished evs, d)
      | Proceed booking \<Rightarrow> (Checked booking, d))"
| "start_step c (Checked booking, d) =
     (case startBookingSession_insert (sc_user c) (sc_insert_err c) (sc_new_id c) (sc_db_now c)
             (sc_bookingId c) booking d of
        (evs, d') \<Rightarrow> (Finished evs, d'))"
| "start_step c (Finished evs, d) = (Finished evs, d)"

text \<open>The same for the handler of \<^verbatim>\<open>src/pages/AdminDashboard.tsx\<close>, which carries the
  user id from its query to its insert.\<close>

record page_call =
  pg_user :: app_user
  pg_check_err :: "string option"
  pg_insert_err :: "string option"
  pg_new_id :: string
  pg_db_now :: int
  pg_bookingId :: string
  pg_userId :: "string option"

fun page_step :: "page_call \<Rightarrow> string start_pc \<times> db \<Rightarrow> string start_pc \<times> db" where
  "page_step c (Not_started, d) =
     (case startBookingSession_page_check (pg_check_err c) (pg_userId c) d of
        Stop_page evs \<Rightarrow> (Finished evs, d)
      | Proceed_page u \<Rightarrow> (Checked u, d))"
| "page_step c (Checked u, d) =
     (case startBookingSession_page_insert (pg_user c) (pg_insert_err c) (pg_new_id c) (pg_db_now c)
             (pg_bookingId c) u d of
        (evs, d') \<Rightarrow> (Finished evs, d'))"
| "page_step c (Finished evs, d) = (Finished evs, d)"

text \<open>Two handlers, given by their step functions, run under a schedule: \<open>True\<close> lets the
  first one take its next step, \<open>False\<close> the second.\<close>

fun run_two ::
  "('p \<times> db \<Rightarrow> 'p \<times> db) \<Rightarrow> ('p \<times> db \<Rightarrow> 'p \<times> db) \<Rightarrow> bool list \<Rightarrow> 'p \<times> 'p \<times> db \<Rightarrow>
   'p \<times> 'p \<times> db" where
  "run_two step1 step2 [] st = st"
| "run_two step1 step2 (first # sched) (p1, p2, d) =
     (if first
      then (case step1 (p1, d) of (p1', d') \<Rightarrow> run_two step1 step2 sched (p1', p2, d'))
      else (case step2 (p2, d) of (p2', d') \<Rightarrow> run_two step1 step2 sched (p1, p2', d')))"

fun pc_succeeded :: "'a start_pc \<Rightarrow> bool" where
  "pc_succeeded (Finished evs) = succeeded evs"
| "pc_succeeded p = False"

fun pc_failed :: "'a start_pc \<Rightarrow> bool" where
  "pc_failed (Finished evs) = failed evs"
| "pc_failed p = False"

section \<open>endBookingSession\<close>

text \<open>\<^verbatim>\<open>Math.ceil((endTime.getTime() - startTime.getTime()) / (1000 * 60))\<close>\<close>

definition durationMinutes :: "int \<Rightarrow> int \<Rightarrow> int" where
  "durationMinutes endTime startTime = \<lceil>real_of_int (endTime - startTime) / (1000 * 60)\<rceil>"

text \<open>JavaScript \<^verbatim>\<open>a % b\<close> for a positive \<open>b\<close>: the sign is the dividend's.\<close>

definition js_rem :: "int \<Rightarrow> int \<Rightarrow> int" where
  "js_rem a b = (if 0 \<le> a then a mod b else - ((- a) mod b))"

definition end_failed :: "ui_event list" where
  "end_failed = [console_error ''Error ending session:'', toast_error ''Failed to end session'']"

text \<open>The patch of the update: the five columns it names.\<close>

definition end_patch :: "app_user \<Rightarrow> int \<Rightarrow> int \<Rightarrow> user_session \<Rightarrow> user_session" where
  "end_patch user endTime dm s =
     s\<lparr>end_time := Some endTime,
       duration_minutes := Some dm,
       s_status := Completed,
       ended_by := Some (uid user),
       confirmation_required := True\<rparr>"

text \<open>
  \<^verbatim>\<open>endBookingSession(sessionId)\<close> (the unnamed module only). \<open>now\<close> is the reading of
  \<^verbatim>\<open>new Date()\<close>, taken after the session row has been read. The row comes with its
  booking joined in; building the webhook's body reads the booking's fields inside the
  inner \<^verbatim>\<open>try\<close>, so a session without a booking throws there, before any request is
  sent, and is caught as a rejected \<^verbatim>\<open>fetch\<close> is.
\<close>

text \<open>The booking the select joins to a session row: none when the row has no booking id or
  no booking has that id.\<close>

definition joined_booking :: "db \<Rightarrow> user_session \<Rightarrow> booking option" where
  "joined_booking d s =
     (case booking_id s of None \<Rightarrow> None | Some k \<Rightarrow> find (\<lambda>b. bid b = k) (bookings_tbl d))"

definition endBookingSession ::
  "app_user \<Rightarrow> int \<Rightarrow> string option \<Rightarrow> string option \<Rightarrow> fetch_outcome \<Rightarrow>
   string \<Rightarrow> db \<Rightarrow> ui_event list \<times> db" where
  "endBookingSession user now select_err update_err hook sessionId d =
     (let (session, sessionError) =
            (case select_err of
               Some c \<Rightarrow> (None, Some c)
             | None \<Rightarrow> single (filter (\<lambda>s. sid s = sessionId) (user_sessions_tbl d)))
      in if sessionError \<noteq> None then (end_failed, d)
         else (case session of
                 None \<Rightarrow> (end_failed, d)
               | Some s \<Rightarrow>
                   (let endTime = now;
                        dm = durationMinutes endTime (start_time s)
                    in case update_err of
                         Some e \<Rightarrow> (end_failed, d)
                       | None \<Rightarrow>
                           (let d' = d\<lparr>user_sessions_tbl :=
                                        update_eq sid sessionId (end_patch user endTime dm)
                                          (user_sessions_tbl d)\<rparr>;
                                joined = joined_booking d s;
                                toast = toast_session_ended (dm div 60) (js_rem dm 60)
                            in if joined = None
                               then ([console_error ''Webhook failed:'', toast], d')
                               else if \<not> fetch_settles hook then ([], d')
                               else ((if fetch_throws hook
                                      then [console_error ''Webhook failed:''] else [])
                                       @ [toast], d')))))"

definition stored_session :: "db \<Rightarrow> string \<Rightarrow> user_session option" where
  "stored_session d k = find (\<lambda>s. sid s = k) (user_sessions_tbl d)"

text \<open>
  The handler in time. It reads the browser's clock and computes the duration from that
  reading (lines 419 to 421) before it sends the update (lines 424 to 433); the store
  commits the update afterwards, at \<open>committed_at\<close>. The patch is fixed when the request
  leaves, so the time of the commit enters neither the stored row nor the events.
\<close>

definition endBookingSession_run ::
  "app_user \<Rightarrow> int \<Rightarrow> int \<Rightarrow> string option \<Rightarrow> string option \<Rightarrow> fetch_outcome \<Rightarrow>
   string \<Rightarrow> db \<Rightarrow> ui_event list \<times> db" where
  "endBookingSession_run user clock_read committed_at select_err update_err hook sessionId d =
     endBookingSession user clock_read select_err update_err hook sessionId d"

section \<open>Dashboard statistics\<close>

record dashboard_stats =
  totalBookings :: nat
  pendingBookings :: nat
  confirmedBookings :: nat
  totalRevenue :: int
  activeUsers :: nat

text \<open>\<^verbatim>\<open>x || 0\<close> on a number.\<close>

definition or_zero :: "int \<Rightarrow> int" where
  "or_zero x = (if x = 0 then 0 else x)"

text \<open>
  The statistics \<^verbatim>\<open>fetchDashboardData\<close> of the unnamed module computes from the rows of
  \<^verbatim>\<open>bookings\<close> and from the \<^verbatim>\<open>user_id\<close>s of the sessions of the last thirty days.
\<close>

definition fetchDashboardData_stats :: "booking list \<Rightarrow> string list \<Rightarrow> dashboard_stats" where
  "fetchDashboardData_stats bookingsData activeUsersData =
     \<lparr>totalBookings = length bookingsData,
      pendingBookings = length (filter (\<lambda>b. status b = Pending) bookingsData),
      confirmedBookings = length (filter (\<lambda>b. status b = Confirmed) bookingsData),
      totalRevenue = or_zero (foldl (\<lambda>sum b. sum + or_zero (total_price b)) 0 bookingsData),
      activeUsers = length (remdups activeUsersData)\<rparr>"

text \<open>The same of \<^verbatim>\<open>src/pages/AdminDashboard.tsx\<close>; \<open>customers\<close> is the count of
  customer accounts the store returns to an admin (0 for staff).\<close>

definition fetchDashboardData_stats_page :: "booking list \<Rightarrow> nat \<Rightarrow> dashboard_stats" where
  "fetchDashboardData_stats_page allBookings customers =
     \<lparr>totalBookings = length allBookings,
      pendingBookings = length (filter (\<lambda>b. status b = Pending) allBookings),
      confirmedBookings = length (filter (\<lambda>b. status b = Confirmed) allBookings),
      totalRevenue = foldl (\<lambda>sum b. sum + total_price b) 0
                       (filter (\<lambda>b. status b = Confirmed) allBookings),
      activeUsers = customers\<rparr>"

section \<open>The specification's vocabulary\<close>

text \<open>The allowed transitions, as the specification lists them.\<close>

fun spec_allowed :: "booking_status \<Rightarrow> booking_status \<Rightarrow> bool" where
  "spec_allowed Pending Code_sent = True"
| "spec_allowed Pending Confirmed = True"
| "spec_allowed Pending Rejected = True"
| "spec_allowed Code_sent Confirmed = True"
| "spec_allowed Code_sent Rejected = True"
| "spec_allowed Pending Cancelled = True"
| "spec_allowed Code_sent Cancelled = True"
| "spec_allowed Confirmed Cancelled = True"
| "spec_allowed s t = False"

text \<open>A dispatch failure, as the specification lists them: a timeout (a request that has
  not settled when the time is up), a network error, a response outside 200..299.\<close>

fun spec_dispatch_failure :: "fetch_outcome \<Rightarrow> bool" where
  "spec_dispatch_failure (Response c) = (c < 200 \<or> 299 < c)"
| "spec_dispatch_failure NetworkFailure = True"
| "spec_dispatch_failure Never_settles = True"

text \<open>The duration of an ended session, as the specification defines it: the ceiling of
  the time from the start to the commit, in minutes.\<close>

definition spec_duration_minutes :: "int \<Rightarrow> int \<Rightarrow> int" where
  "spec_duration_minutes commit_time started = \<lceil>real_of_int (commit_time - started) / 60000\<rceil>"

text \<open>The revenue, as the specification defines it.\<close>

definition spec_revenue :: "booking list \<Rightarrow> int" where
  "spec_revenue bs = sum_list (map total_price (filter (\<lambda>b. status b = Confirmed) bs))"

section \<open>Sample data\<close>

definition sample_booking :: "string \<Rightarrow> booking_status \<Rightarrow> int \<Rightarrow> string option \<Rightarrow> booking" where
  "sample_booking k s p u =
     \<lparr>bid = k, workspace_type = ''desk'', date = ''2025-01-15'', time_slot = ''9:00 AM'',
      duration = ''2 hours'', customer_name = ''Mona'', customer_email = ''mona@example.com'',
      customer_phone = ''0100'', customer_whatsapp = ''0100'', total_price = p, status = s,
      confirmation_code = None, created_at = 0, updated_at = 0, user_id = u,
      desk_number = None\<rparr>"

definition sample_session :: "string \<Rightarrow> string \<Rightarrow> session_status \<Rightarrow> int \<Rightarrow> user_session" where
  "sample_session k b st t =
     \<lparr>sid = k, s_user_id = ''u1'', booking_id = Some b, session_type = ''booking'',
      start_time = t, end_time = None, duration_minutes = None, s_status = st,
      started_by = Some ''admin1'', ended_by = None, confirmation_required = False\<rparr>"

definition operator :: app_user where
  "operator = \<lparr>uid = ''admin1'', uname = ''Admin''\<rparr>"

text \<open>The status the operator's local list shows for a booking id: what the caller
  expects the booking's status to be.\<close>

definition viewed_status :: "booking list \<Rightarrow> string \<Rightarrow> booking_status option" where
  "viewed_status view k = map_option status (find (\<lambda>b. bid b = k) view)"

text \<open>A local list that still shows booking b1 as pending, and stores in which b1 has
  been moved on.\<close>

definition stale_view :: "booking list" where
  "stale_view = [sample_booking ''b1'' Pending 100 None]"

definition moved_db :: "booking_status \<Rightarrow> db" where
  "moved_db s = \<lparr>bookings_tbl = [sample_booking ''b1'' s 100 None], user_sessions_tbl = []\<rparr>"

definition coded_db :: db where
  "coded_db = \<lparr>bookings_tbl = [(sample_booking ''b1'' Code_sent 100 None)\<lparr>confirmation_code := Some ''AB12CD''\<rparr>],
                user_sessions_tbl = []\<rparr>"

text \<open>The console line of the inner \<^verbatim>\<open>catch\<close>, and the toasts among a handler's events.\<close>

definition webhook_failed :: ui_event where
  "webhook_failed = console_error ''Webhook failed:''"

definition toasts :: "ui_event list \<Rightarrow> ui_event list" where
  "toasts evs = filter (\<lambda>e. is_success e \<or> is_failure e) evs"

text \<open>The rows of \<^verbatim>\<open>user_sessions\<close> with a given id.\<close>

definition sessions_with_id :: "db \<Rightarrow> string \<Rightarrow> user_session list" where
  "sessions_with_id d k = filter (\<lambda>s. sid s = k) (user_sessions_tbl d)"

text \<open>A store with a running session s1 of booking b1, and one where s1 has ended.\<close>

definition running_db :: db where
  "running_db = \<lparr>bookings_tbl = [sample_booking ''b1'' Confirmed 100 None],
                  user_sessions_tbl = [sample_session ''s1'' ''b1'' Active 0]\<rparr>"

definition ended_db :: db where
  "ended_db = \<lparr>bookings_tbl = [sample_booking ''b1'' Confirmed 100 None],
                user_sessions_tbl = [(sample_session ''s1'' ''b1'' Completed 0)
                   \<lparr>end_time := Some 60000, duration_minutes := Some 1\<rparr>]\<rparr>"

text \<open>The session rows of a booking, and the active session rows of a user: what the two
  queries of the start handlers select.\<close>

definition sessions_of_booking :: "db \<Rightarrow> string \<Rightarrow> user_session list" where
  "sessions_of_booking d k = filter (\<lambda>s. booking_id s = Some k) (user_sessions_tbl d)"

definition active_sessions_of_user :: "db \<Rightarrow> string \<Rightarrow> user_session list" where
  "active_sessions_of_user d u =
     filter (\<lambda>s. s_user_id s = u \<and> s_status s = Active) (user_sessions_tbl d)"

text \<open>A local list showing b1 as confirmed, a store without sessions, and two operators
  about to start a session for b1.\<close>

definition confirmed_view :: "booking list" where
  "confirmed_view = [sample_booking ''b1'' Confirmed 100 None]"

definition idle_db :: db where
  "idle_db = \<lparr>bookings_tbl = [sample_booking ''b1'' Confirmed 100 None], user_sessions_tbl = []\<rparr>"

definition first_call :: start_call where
  "first_call = \<lparr>sc_user = operator, sc_bookings = confirmed_view, sc_check_err = None,
                  sc_insert_err = None, sc_new_id = ''s1'', sc_db_now = 1000,
                  sc_bookingId = ''b1''\<rparr>"

definition second_call :: start_call where
  "second_call = \<lparr>sc_user = \<lparr>uid = ''staff2'', uname = ''Staff''\<rparr>, sc_bookings = confirmed_view,
                   sc_check_err = None, sc_insert_err = None, sc_new_id = ''s2'',
                   sc_db_now = 1001, sc_bookingId = ''b1''\<rparr>"

text \<open>Three confirmed bookings of 100, 200 and 300 and a pending one of 50.\<close>

definition revenue_sample :: "booking list" where
  "revenue_sample = [sample_booking ''b1'' Confirmed 100 None, sample_booking ''b2'' Confirmed 200 None,
                     sample_booking ''b3'' Confirmed 300 None, sample_booking ''b4'' Pending 50 None]"

text \<open>The row the insert of \<open>startBookingSession_insert\<close> appends.\<close>

definition new_session :: "app_user \<Rightarrow> string \<Rightarrow> int \<Rightarrow> string \<Rightarrow> booking \<Rightarrow> user_session" where
  "new_session user new_id db_now bookingId booking =
     \<lparr>sid = new_id, s_user_id = or_else (user_id booking) (uid user), booking_id = Some bookingId,
      session_type = ''booking'', start_time = db_now, end_time = None, duration_minutes = None,
      s_status = Active, started_by = Some (uid user), ended_by = None,
      confirmation_required = False\<rparr>"

text \<open>A start handler run from its query to its end without interruption.\<close>

definition call_result :: "start_call \<Rightarrow> db \<Rightarrow> ui_event list \<times> db" where
  "call_result c d =
     startBookingSession (sc_user c) (sc_bookings c) (sc_check_err c) (sc_insert_err c)
       (sc_new_id c) (sc_db_now c) (sc_bookingId c) d"

definition page_result :: "page_call \<Rightarrow> db \<Rightarrow> ui_event list \<times> db" where
  "page_result c d =
     startBookingSession_page (pg_user c) (pg_check_err c) (pg_insert_err c) (pg_new_id c)
       (pg_db_now c) (pg_bookingId c) (pg_userId c) d"

text \<open>Two operators about to start a session for b1, the booking of user u1, from
  \<^verbatim>\<open>src/pages/AdminDashboard.tsx\<close>.\<close>

definition first_page_call :: page_call where
  "first_page_call = \<lparr>pg_user = operator, pg_check_err = None, pg_insert_err = None,
                       pg_new_id = ''s1'', pg_db_now = 1000, pg_bookingId = ''b1'',
                       pg_userId = Some ''u1''\<rparr>"

definition second_page_call :: page_call where
  "second_page_call = \<lparr>pg_user = \<lparr>uid = ''staff2'', uname = ''Staff''\<rparr>, pg_check_err = None,
                        pg_insert_err = None, pg_new_id = ''s2'', pg_db_now = 1001,
                        pg_bookingId = ''b1'', pg_userId = Some ''u1''\<rparr>"

text \<open>A store in which b1 has an earlier, completed session and a running one.\<close>

definition two_rows_db :: db where
  "two_rows_db = \<lparr>bookings_tbl = [sample_booking ''b1'' Confirmed 100 None],
                   user_sessions_tbl = [sample_session ''s0'' ''b1'' Completed 0,
                                        sample_session ''s1'' ''b1'' Active 500]\<rparr>"

section \<open>Properties\<close>

subsection \<open>Store and handler lemmas\<close>

lemma find_update_eq:
  "(\<And>r. key (patch r) = key r) \<Longrightarrow>
   find (\<lambda>r. key r = k) (update_eq key k patch rows) = map_option patch (find (\<lambda>r. key r = k) rows)"
  by (induction rows) (auto simp: update_eq_def)

lemma bid_updateData: "bid (updateData now s c b) = bid b"
  by (simp add: updateData_def Let_def)

lemma status_updateData: "status (updateData now s c b) = s"
  by (simp add: updateData_def Let_def)

lemma code_updateData:
  "confirmation_code (updateData now s c b) = (if truthy c then c else confirmation_code b)"
  by (simp add: updateData_def Let_def)

lemma stored_status_update:
  "stored_status (d\<lparr>bookings_tbl := update_eq bid k (updateData now s c) (bookings_tbl d)\<rparr>) k
     = map_option (\<lambda>_. s) (stored_status d k)"
  by (simp add: stored_status_def find_update_eq bid_updateData option.map_comp comp_def status_updateData)

lemma stored_code_update:
  "stored_code (d\<lparr>bookings_tbl := update_eq bid k (updateData now s c) (bookings_tbl d)\<rparr>) k
     = (if truthy c \<and> stored_status d k \<noteq> None then c else stored_code d k)"
  by (cases "find (\<lambda>b. bid b = k) (bookings_tbl d)")
     (simp_all add: stored_code_def stored_status_def find_update_eq bid_updateData code_updateData)

lemma updateBookingStatus_ok_events:
  "fetch_settles h \<Longrightarrow> succeeded (fst (updateBookingStatus view now None h k s c d))"
  by (simp add: updateBookingStatus_def succeeded_def Let_def split: option.splits)

lemma updateBookingStatus_ok_not_failed:
  "\<not> failed (fst (updateBookingStatus view now None h k s c d))"
  by (simp add: updateBookingStatus_def failed_def Let_def split: option.splits)

lemma updateBookingStatus_ok_db:
  "snd (updateBookingStatus view now None h k s c d) =
     d\<lparr>bookings_tbl := update_eq bid k (updateData now s c) (bookings_tbl d)\<rparr>"
  by (simp add: updateBookingStatus_def Let_def split: option.splits)

lemma updateBookingStatus_err:
  "updateBookingStatus view now (Some e) h k s c d =
     ([console_error ''Error updating booking status:'',
       toast_error ''Failed to update booking status''], d)"
  by (simp add: updateBookingStatus_def)

lemma sample_stored_status [simp]: "stored_status (moved_db s) ''b1'' = Some s"
  by (simp add: moved_db_def stored_status_def sample_booking_def)

lemma sample_viewed_status: "viewed_status stale_view ''b1'' = Some Pending"
  by (simp add: stale_view_def viewed_status_def sample_booking_def)

subsection \<open>Transitions are not compared with the stored status\<close>

text \<open>
  The local list shows b1 as pending while the store holds it as cancelled; the call for
  confirmed succeeds and the stored booking becomes confirmed.
\<close>



theorem updateBookingStatus_conflict_counterexample:
  "viewed_status stale_view ''b1'' = Some Pending \<and>
   stored_status (moved_db Cancelled) ''b1'' = Some Cancelled \<and>
   succeeded (fst (updateBookingStatus stale_view 5 None (Response 200) ''b1'' Confirmed None
                (moved_db Cancelled))) \<and>
   \<not> failed (fst (updateBookingStatus stale_view 5 None (Response 200) ''b1'' Confirmed None
                (moved_db Cancelled))) \<and>
   stored_status (snd (updateBookingStatus stale_view 5 None (Response 200) ''b1'' Confirmed None
                (moved_db Cancelled))) ''b1'' = Some Confirmed"
  by (simp add: updateBookingStatus_ok_events updateBookingStatus_ok_not_failed
        updateBookingStatus_ok_db stored_status_update sample_viewed_status)

text \<open>
  Claim C1, as amended. A transition call never compares the stored status with the
  status the caller expects: whenever the store accepts the update the stored booking
  takes the target status, whatever status it had, and the call succeeds (it shows no
  error, and shows its success toast once its webhook request has settled). The call
  fails only when the store reports an error, and then the store is unchanged. Of two
  calls on the same booking made one after the other, both succeed and the second one's
  target is what the store holds.
\<close>

theorem updateBookingStatus_last_write_wins:
  "let r1 = updateBookingStatus view1 t1 None h1 k s1 c1 d;
       r2 = updateBookingStatus view2 t2 None h2 k s2 c2 (snd r1);
       r3 = updateBookingStatus view1 t1 (Some e) h1 k s1 c1 d
   in (fetch_settles h1 \<longrightarrow> succeeded (fst r1)) \<and> \<not> failed (fst r1) \<and>
      (fetch_settles h2 \<longrightarrow> succeeded (fst r2)) \<and> \<not> failed (fst r2) \<and>
      (stored_status d k = Some s0 \<longrightarrow>
         stored_status (snd r1) k = Some s1 \<and> stored_status (snd r2) k = Some s2) \<and>
      failed (fst r3) \<and> \<not> succeeded (fst r3) \<and> snd r3 = d"
  unfolding Let_def
  using updateBookingStatus_ok_events [of h1 view1 t1 k s1 c1 d]
    updateBookingStatus_ok_events [of h2 view2 t2 k s2 c2
      "snd (updateBookingStatus view1 t1 None h1 k s1 c1 d)"]
  apply (simp only: updateBookingStatus_ok_not_failed updateBookingStatus_ok_db
      stored_status_update updateBookingStatus_err)
  apply (simp add: failed_def succeeded_def)
  done

theorem updateBookingStatus_last_write_wins_witness:
  "stored_status (moved_db Pending) ''b1'' = Some Pending \<and> fetch_settles (Response 200) \<and>
   succeeded (fst (updateBookingStatus stale_view 5 None (Response 200) ''b1'' Confirmed None
                (moved_db Pending))) \<and>
   succeeded (fst (updateBookingStatus stale_view 6 None (Response 200) ''b1'' Rejected None
                (snd (updateBookingStatus stale_view 5 None (Response 200) ''b1'' Confirmed None
                  (moved_db Pending))))) \<and>
   stored_status (snd (updateBookingStatus stale_view 6 None (Response 200) ''b1'' Rejected None
                (snd (updateBookingStatus stale_view 5 None (Response 200) ''b1'' Confirmed None
                  (moved_db Pending))))) ''b1'' = Some Rejected \<and>
   snd (updateBookingStatus stale_view 5 (Some ''timeout'') (Response 200) ''b1'' Confirmed None
          (moved_db Pending)) = moved_db Pending"
  using updateBookingStatus_last_write_wins
    [of stale_view 5 "Response 200" "''b1''" Confirmed None "moved_db Pending"
        stale_view 6 "Response 200" Rejected None "''timeout''" Pending]
  by (simp add: Let_def)

subsection \<open>Transitions are not validated\<close>

text \<open>
  A rejected booking, still displayed as pending, is confirmed by the button of its row;
  and the handler itself moves a confirmed booking back to pending. Neither pair is in
  the allowed set.
\<close>



theorem updateBookingStatus_invalid_transition_counterexample:
  "\<not> spec_allowed Rejected Confirmed \<and>
   stored_status (moved_db Rejected) ''b1'' = Some Rejected \<and>
   succeeded (fst (updateBookingStatus stale_view 7 None (Response 200) ''b1'' Confirmed None
                (moved_db Rejected))) \<and>
   stored_status (snd (updateBookingStatus stale_view 7 None (Response 200) ''b1'' Confirmed None
                (moved_db Rejected))) ''b1'' = Some Confirmed \<and>
   \<not> spec_allowed Confirmed Pending \<and>
   succeeded (fst (updateBookingStatus (bookings_tbl (moved_db Confirmed)) 7 None (Response 200)
                ''b1'' Pending None (moved_db Confirmed))) \<and>
   stored_status (snd (updateBookingStatus (bookings_tbl (moved_db Confirmed)) 7 None
                (Response 200) ''b1'' Pending None (moved_db Confirmed))) ''b1'' = Some Pending"
  by (simp add: updateBookingStatus_ok_events updateBookingStatus_ok_db stored_status_update)

text \<open>
  Claim C2, as amended. A requested status change is applied whatever the pair of current
  and target status is; no call fails for the pair it asks for (a call the store accepts
  shows no error, and shows its success toast once its webhook request has settled). The
  restriction is in the views: a row offers status buttons only when it displays pending,
  and then for exactly code_sent, confirmed and rejected, each an allowed pair with the
  displayed status.
\<close>

theorem updateBookingStatus_any_transition:
  "let r = updateBookingStatus view now None h k target c d
   in (fetch_settles h \<longrightarrow> succeeded (fst r)) \<and> \<not> failed (fst r) \<and>
      (stored_status d k = Some cur \<longrightarrow> stored_status (snd r) k = Some target) \<and>
      (target \<in> set (offered_targets shown) \<longrightarrow> shown = Pending \<and> spec_allowed shown target) \<and>
      offered_targets Pending = [Code_sent, Confirmed, Rejected] \<and>
      (shown \<noteq> Pending \<longrightarrow> offered_targets shown = [])"
  unfolding Let_def
  using updateBookingStatus_ok_events [of h view now k target c d]
  apply (simp only: updateBookingStatus_ok_not_failed updateBookingStatus_ok_db
      stored_status_update)
  apply (cases shown; auto)
  done

theorem updateBookingStatus_any_transition_witness:
  "stored_status (moved_db Cancelled) ''b1'' = Some Cancelled \<and>
   Rejected \<in> set (offered_targets Pending) \<and> fetch_settles NetworkFailure \<and>
   succeeded (fst (updateBookingStatus stale_view 8 None NetworkFailure ''b1'' Rejected None
                (moved_db Cancelled))) \<and>
   stored_status (snd (updateBookingStatus stale_view 8 None NetworkFailure ''b1'' Rejected None
                (moved_db Cancelled))) ''b1'' = Some Rejected \<and>
   spec_allowed Pending Rejected"
  using updateBookingStatus_any_transition
    [of stale_view 8 NetworkFailure "''b1''" Rejected None "moved_db Cancelled" Cancelled Pending]
  by (simp add: Let_def)

subsection \<open>The confirmation code\<close>



lemma coded_db_code: "stored_code coded_db ''b1'' = Some ''AB12CD''"
  by (simp add: coded_db_def stored_code_def sample_booking_def)

lemma coded_db_status: "stored_status coded_db ''b1'' = Some Code_sent"
  by (simp add: coded_db_def stored_status_def sample_booking_def)

text \<open>
  Booking b1 is stored as code_sent with code AB12CD; an operator whose list still shows
  it as pending sends a code again, and the stored code becomes ZZ99YY.
\<close>

theorem confirmation_code_rewritten_counterexample:
  "stored_status coded_db ''b1'' = Some Code_sent \<and>
   stored_code coded_db ''b1'' = Some ''AB12CD'' \<and>
   viewed_status stale_view ''b1'' = Some Pending \<and>
   succeeded (fst (updateBookingStatus stale_view 9 None (Response 200) ''b1'' Code_sent
                (Some ''ZZ99YY'') coded_db)) \<and>
   stored_code (snd (updateBookingStatus stale_view 9 None (Response 200) ''b1'' Code_sent
                (Some ''ZZ99YY'') coded_db)) ''b1'' = Some ''ZZ99YY''"
  by (simp add: updateBookingStatus_ok_events updateBookingStatus_ok_db stored_code_update
        coded_db_code coded_db_status sample_viewed_status)

lemma map_code_update_eq:
  "\<not> truthy c \<Longrightarrow>
   map confirmation_code (update_eq bid k (updateData now s c) rows) = map confirmation_code rows"
  by (induction rows) (auto simp: update_eq_def code_updateData)

text \<open>
  Claim C4, as amended. A call that passes no code (or an empty one), as the calls for
  confirmed and rejected do, leaves every stored confirmation_code as it was. A call
  that passes a code writes it to the booking, replacing a code already stored.
\<close>

theorem confirmation_code_written_when_passed:
  "let r = updateBookingStatus view now store_err h k target c d
   in (\<not> truthy c \<longrightarrow>
         map confirmation_code (bookings_tbl (snd r)) = map confirmation_code (bookings_tbl d)) \<and>
      (truthy c \<and> store_err = None \<and> stored_status d k \<noteq> None \<longrightarrow> stored_code (snd r) k = c)"
proof (cases store_err)
  case None
  then show ?thesis
    by (simp add: Let_def updateBookingStatus_ok_db stored_code_update map_code_update_eq)
next
  case (Some e)
  then show ?thesis
    by (simp add: Let_def updateBookingStatus_err)
qed

theorem confirmation_code_written_when_passed_witness:
  "\<not> truthy None \<and> truthy (Some ''ZZ99YY'') \<and> stored_status coded_db ''b1'' \<noteq> None \<and>
   map confirmation_code (bookings_tbl (snd (updateBookingStatus stale_view 9 None (Response 200)
       ''b1'' Confirmed None coded_db))) = [Some ''AB12CD''] \<and>
   stored_code (snd (updateBookingStatus stale_view 9 None (Response 200) ''b1'' Code_sent
       (Some ''ZZ99YY'') coded_db)) ''b1'' = Some ''ZZ99YY''"
  using confirmation_code_written_when_passed
      [of stale_view 9 None "Response 200" "''b1''" Confirmed None coded_db]
    confirmation_code_written_when_passed
      [of stale_view 9 None "Response 200" "''b1''" Code_sent "Some ''ZZ99YY''" coded_db]
  by (simp add: Let_def coded_db_status) (simp add: coded_db_def sample_booking_def)

subsection \<open>Lemmas on ending a session\<close>

lemma find_filter: "find P xs = (case filter P xs of [] \<Rightarrow> None | x # _ \<Rightarrow> Some x)"
  by (induction xs) auto

lemma filter_update_eq:
  "(\<And>r. key (patch r) = key r) \<Longrightarrow>
   filter (\<lambda>r. key r = k) (update_eq key k patch rows) = map patch (filter (\<lambda>r. key r = k) rows)"
  by (induction rows) (auto simp: update_eq_def)

lemma sid_end_patch: "sid (end_patch u t m s) = sid s"
  by (simp add: end_patch_def)

lemma end_patch_fields:
  "end_patch u t m s =
     s\<lparr>end_time := Some t, duration_minutes := Some m, s_status := Completed,
       ended_by := Some (uid u), confirmation_required := True\<rparr>"
  by (simp add: end_patch_def)

lemma endBookingSession_one_row:
  assumes "sessions_with_id d k = [s]"
  shows "endBookingSession user now None None h k d =
          ((if joined_booking d s = None
            then [console_error ''Webhook failed:'',
                  toast_session_ended (durationMinutes now (start_time s) div 60)
                    (js_rem (durationMinutes now (start_time s)) 60)]
            else if \<not> fetch_settles h then []
            else (if fetch_throws h then [console_error ''Webhook failed:''] else []) @
                 [toast_session_ended (durationMinutes now (start_time s) div 60)
                    (js_rem (durationMinutes now (start_time s)) 60)]),
           d\<lparr>user_sessions_tbl := update_eq sid k
               (end_patch user now (durationMinutes now (start_time s))) (user_sessions_tbl d)\<rparr>)"
  using assms by (simp add: endBookingSession_def sessions_with_id_def Let_def)

lemma endBookingSession_one_row_after:
  assumes "sessions_with_id d k = [s]"
  shows "sessions_with_id (snd (endBookingSession user now None None h k d)) k =
           [end_patch user now (durationMinutes now (start_time s)) s]"
  using assms
  by (simp add: endBookingSession_one_row) (simp add: sessions_with_id_def filter_update_eq sid_end_patch)

lemma stored_session_one_row: "sessions_with_id d k = [s] \<Longrightarrow> stored_session d k = Some s"
  by (simp add: stored_session_def sessions_with_id_def find_filter)

lemma endBookingSession_one_row_succeeded:
  assumes "sessions_with_id d k = [s]" and "fetch_settles h \<or> joined_booking d s = None"
  shows "succeeded (fst (endBookingSession user now None None h k d))"
  using assms by (auto simp: endBookingSession_one_row succeeded_def)

lemma endBookingSession_one_row_not_failed:
  assumes "sessions_with_id d k = [s]"
  shows "\<not> failed (fst (endBookingSession user now None None h k d))"
  using assms by (simp add: endBookingSession_one_row failed_def)

lemma endBookingSession_no_row:
  assumes "sessions_with_id d k = []"
  shows "endBookingSession user now se ue h k d = (end_failed, d)"
  using assms by (simp add: endBookingSession_def sessions_with_id_def split: option.splits)

lemma endBookingSession_select_err:
  "endBookingSession user now (Some e) ue h k d = (end_failed, d)"
  by (simp add: endBookingSession_def)

lemma endBookingSession_update_err:
  "endBookingSession user now se (Some e) h k d = (end_failed, d)"
  by (auto simp: endBookingSession_def Let_def split: option.splits prod.splits)

lemma end_failed_events: "failed end_failed \<and> \<not> succeeded end_failed"
  by (simp add: end_failed_def failed_def succeeded_def)

lemma running_rows: "sessions_with_id running_db ''s1'' = [sample_session ''s1'' ''b1'' Active 0]"
  by (simp add: running_db_def sessions_with_id_def sample_session_def)

lemma running_joined: "joined_booking running_db (sample_session ''s1'' ''b1'' Active 0) \<noteq> None"
  by (simp add: joined_booking_def running_db_def sample_session_def sample_booking_def)

lemma ended_rows:
  "sessions_with_id ended_db ''s1'' =
     [(sample_session ''s1'' ''b1'' Completed 0)\<lparr>end_time := Some 60000, duration_minutes := Some 1\<rparr>]"
  by (simp add: ended_db_def sessions_with_id_def sample_session_def)

lemma durationMinutes_div: "durationMinutes e st = - ((st - e) div 60000)"
proof -
  have "real_of_int (e - st) / (1000 * 60) = real_of_int (e - st) / real_of_int 60000" by simp
  then have "durationMinutes e st = \<lceil>real_of_int (e - st) / real_of_int 60000\<rceil>"
    by (simp add: durationMinutes_def)
  also have "\<dots> = - ((- (e - st)) div 60000)"
    by (simp only: ceiling_divide_eq_div)
  finally show ?thesis by simp
qed

lemma durationMinutes_bounds:
  "60000 * (durationMinutes e st - 1) < e - st \<and> e - st \<le> 60000 * durationMinutes e st"
proof -
  define x where "x = real_of_int (e - st) / 60000"
  have m: "durationMinutes e st = \<lceil>x\<rceil>"
    by (simp add: durationMinutes_def x_def)
  have scaled: "real_of_int (e - st) = 60000 * x"
    by (simp add: x_def)
  have "x \<le> of_int \<lceil>x\<rceil>" by (rule le_of_int_ceiling)
  with scaled have "real_of_int (e - st) \<le> real_of_int (60000 * \<lceil>x\<rceil>)"
    by simp
  then have up: "e - st \<le> 60000 * \<lceil>x\<rceil>"
    by (simp only: of_int_le_iff)
  have "of_int \<lceil>x\<rceil> - 1 < x" by linarith
  with scaled have "real_of_int (60000 * (\<lceil>x\<rceil> - 1)) < real_of_int (e - st)"
    by simp
  then have lo: "60000 * (\<lceil>x\<rceil> - 1) < e - st"
    by (simp only: of_int_less_iff)
  show ?thesis using up lo by (simp add: m)
qed

subsection \<open>Ending a session\<close>

text \<open>
  Ending the completed session s1 again succeeds and replaces its end time and duration.
\<close>

theorem endBookingSession_repeat_counterexample:
  "map_option s_status (stored_session ended_db ''s1'') = Some Completed \<and>
   map_option end_time (stored_session ended_db ''s1'') = Some (Some 60000) \<and>
   succeeded (fst (endBookingSession operator 600000 None None (Response 200) ''s1'' ended_db)) \<and>
   \<not> failed (fst (endBookingSession operator 600000 None None (Response 200) ''s1'' ended_db)) \<and>
   map_option end_time (stored_session
      (snd (endBookingSession operator 600000 None None (Response 200) ''s1'' ended_db)) ''s1'')
     = Some (Some 600000) \<and>
   map_option duration_minutes (stored_session
      (snd (endBookingSession operator 600000 None None (Response 200) ''s1'' ended_db)) ''s1'')
     = Some (Some 10)"
  by (simp add: stored_session_one_row [OF ended_rows]
        stored_session_one_row [OF endBookingSession_one_row_after [OF ended_rows]]
        endBookingSession_one_row_succeeded [OF ended_rows]
        endBookingSession_one_row_not_failed [OF ended_rows])
     (simp add: sample_session_def end_patch_def durationMinutes_div)

text \<open>
  Claim C5, as amended. When exactly one session row has the id and the store reports no
  error, ending it goes through whatever the row's status is: the row gets the end time,
  the duration, the status completed, the operator as the one who ended it and the
  confirmation marker, and the call succeeds (it shows no error, and shows its success
  toast once its webhook request has settled). A second call goes through again and
  overwrites what the first one wrote. The call fails, and changes nothing, when no row
  has the id or the store reports an error.
\<close>

theorem endBookingSession_any_status:
  "let r1 = endBookingSession u1 t1 None None h1 k d;
       r2 = endBookingSession u2 t2 None None h2 k (snd r1);
       r3 = endBookingSession u1 t1 se ue h1 k d
   in (sessions_with_id d k = [s] \<longrightarrow>
         (fetch_settles h1 \<longrightarrow> succeeded (fst r1)) \<and> \<not> failed (fst r1) \<and>
         stored_session (snd r1) k =
           Some (s\<lparr>end_time := Some t1,
                   duration_minutes := Some (durationMinutes t1 (start_time s)),
                   s_status := Completed, ended_by := Some (uid u1),
                   confirmation_required := True\<rparr>) \<and>
         (fetch_settles h2 \<longrightarrow> succeeded (fst r2)) \<and> \<not> failed (fst r2) \<and>
         stored_session (snd r2) k =
           Some (s\<lparr>end_time := Some t2,
                   duration_minutes := Some (durationMinutes t2 (start_time s)),
                   s_status := Completed, ended_by := Some (uid u2),
                   confirmation_required := True\<rparr>)) \<and>
      (sessions_with_id d k = [] \<or> se \<noteq> None \<or> ue \<noteq> None \<longrightarrow>
         failed (fst r3) \<and> \<not> succeeded (fst r3) \<and> snd r3 = d)"
proof -
  let ?p1 = "end_patch u1 t1 (durationMinutes t1 (start_time s)) s"
  have one: "sessions_with_id d k = [s] \<Longrightarrow>
      (fetch_settles h1 \<longrightarrow> succeeded (fst (endBookingSession u1 t1 None None h1 k d))) \<and>
      \<not> failed (fst (endBookingSession u1 t1 None None h1 k d)) \<and>
      stored_session (snd (endBookingSession u1 t1 None None h1 k d)) k = Some ?p1"
    by (simp add: endBookingSession_one_row_succeeded endBookingSession_one_row_not_failed
          stored_session_one_row [OF endBookingSession_one_row_after])
  have two: "sessions_with_id d k = [s] \<Longrightarrow>
      (fetch_settles h2 \<longrightarrow> succeeded (fst (endBookingSession u2 t2 None None h2 k
          (snd (endBookingSession u1 t1 None None h1 k d))))) \<and>
      \<not> failed (fst (endBookingSession u2 t2 None None h2 k
          (snd (endBookingSession u1 t1 None None h1 k d)))) \<and>
      stored_session (snd (endBookingSession u2 t2 None None h2 k
          (snd (endBookingSession u1 t1 None None h1 k d)))) k =
        Some (end_patch u2 t2 (durationMinutes t2 (start_time ?p1)) ?p1)"
    using endBookingSession_one_row_succeeded [OF endBookingSession_one_row_after, of d k s h2 u1 t1 h1 u2 t2]
      endBookingSession_one_row_not_failed [OF endBookingSession_one_row_after, of d k s u2 t2 h2 u1 t1 h1]
      stored_session_one_row [OF endBookingSession_one_row_after [OF endBookingSession_one_row_after],
        of d k s u2 t2 h2 u1 t1 h1]
    by simp
  have three: "sessions_with_id d k = [] \<or> se \<noteq> None \<or> ue \<noteq> None \<Longrightarrow>
      endBookingSession u1 t1 se ue h1 k d = (end_failed, d)"
    using endBookingSession_no_row endBookingSession_select_err endBookingSession_update_err
    by (metis not_Some_eq)
  show ?thesis
    unfolding Let_def using one two three
    by (simp add: end_failed_events end_patch_fields)
qed

theorem endBookingSession_any_status_witness:
  "sessions_with_id running_db ''s1'' = [sample_session ''s1'' ''b1'' Active 0] \<and>
   sessions_with_id running_db ''s2'' = [] \<and> fetch_settles (Response 200) \<and>
   succeeded (fst (endBookingSession operator 120000 None None (Response 200) ''s1'' running_db)) \<and>
   map_option s_status (stored_session
      (snd (endBookingSession operator 120000 None None (Response 200) ''s1'' running_db)) ''s1'')
     = Some Completed \<and>
   map_option ended_by (stored_session
      (snd (endBookingSession operator 120000 None None (Response 200) ''s1'' running_db)) ''s1'')
     = Some (Some ''admin1'') \<and>
   map_option confirmation_required (stored_session
      (snd (endBookingSession operator 120000 None None (Response 200) ''s1'' running_db)) ''s1'')
     = Some True \<and>
   map_option end_time (stored_session (snd (endBookingSession operator 300000 None None
      NetworkFailure ''s1''
      (snd (endBookingSession operator 120000 None None (Response 200) ''s1'' running_db)))) ''s1'')
     = Some (Some 300000) \<and>
   failed (fst (endBookingSession operator 120000 None None (Response 200) ''s2'' running_db)) \<and>
   snd (endBookingSession operator 120000 None None (Response 200) ''s2'' running_db) = running_db"
  using endBookingSession_any_status
      [of operator 120000 "Response 200" "''s1''" running_db operator 300000 NetworkFailure None None
          "sample_session ''s1'' ''b1'' Active 0"]
    endBookingSession_any_status
      [of operator 120000 "Response 200" "''s2''" running_db operator 300000 NetworkFailure None None
          "sample_session ''s1'' ''b1'' Active 0"]
  by (simp add: Let_def running_rows operator_def)
     (simp add: running_db_def sessions_with_id_def sample_session_def)

subsection \<open>The duration of an ended session\<close>

text \<open>
  Session s1 started at 0. The operator's clock reads 119 seconds when the handler takes
  it, and the store commits the update at 125 seconds: the stored duration is 2 minutes,
  where the ceiling of the time to the commit is 3.
\<close>

theorem duration_from_clock_reading_counterexample:
  "map_option start_time (stored_session running_db ''s1'') = Some 0 \<and>
   spec_duration_minutes 125000 0 = 3 \<and>
   map_option duration_minutes (stored_session
      (snd (endBookingSession_run operator 119000 125000 None None (Response 200) ''s1'' running_db))
      ''s1'') = Some (Some 2)"
  by (simp add: endBookingSession_run_def stored_session_one_row [OF running_rows]
        stored_session_one_row [OF endBookingSession_one_row_after [OF running_rows]]
        spec_duration_minutes_def)
     (simp add: sample_session_def end_patch_def durationMinutes_div)

text \<open>
  Claim C7, as amended. After a session has been ended, the stored end time is the
  reading of the operator's clock that the handler took before it sent the update,
  whatever the time of the commit is, and the stored duration_minutes is the ceiling of
  the difference between that reading and the start time, in minutes: the least number of
  whole minutes that covers the difference. For a start at T and a reading of T + 125
  seconds it is 3.
\<close>

theorem duration_minutes_is_ceiling:
  "let r = endBookingSession_run user clock_read committed_at None None h k d
   in (sessions_with_id d k = [s] \<longrightarrow>
         map_option end_time (stored_session (snd r) k) = Some (Some clock_read) \<and>
         map_option duration_minutes (stored_session (snd r) k)
           = Some (Some \<lceil>(real_of_int clock_read - real_of_int (start_time s)) / 60000\<rceil>)) \<and>
      60000 * (durationMinutes clock_read st - 1) < clock_read - st \<and>
      clock_read - st \<le> 60000 * durationMinutes clock_read st \<and>
      durationMinutes (T + 125 * 1000) T = 3"
proof -
  have a: "sessions_with_id d k = [s] \<Longrightarrow>
     stored_session (snd (endBookingSession user clock_read None None h k d)) k
       = Some (end_patch user clock_read (durationMinutes clock_read (start_time s)) s)"
    by (simp add: stored_session_one_row [OF endBookingSession_one_row_after])
  have b: "durationMinutes clock_read (start_time s)
      = \<lceil>(real_of_int clock_read - real_of_int (start_time s)) / 60000\<rceil>"
    by (simp add: durationMinutes_def)
  have c: "60000 * (durationMinutes clock_read st - 1) < clock_read - st \<and>
      clock_read - st \<le> 60000 * durationMinutes clock_read st"
    by (rule durationMinutes_bounds)
  have e: "durationMinutes (T + 125 * 1000) T = 3"
    by (simp add: durationMinutes_div)
  show ?thesis
    unfolding Let_def endBookingSession_run_def using a b c e by (simp add: end_patch_def)
qed

theorem duration_minutes_is_ceiling_witness:
  "sessions_with_id running_db ''s1'' = [sample_session ''s1'' ''b1'' Active 0] \<and>
   map_option end_time (stored_session
      (snd (endBookingSession_run operator 125000 131000 None None (Response 200) ''s1'' running_db))
      ''s1'') = Some (Some 125000) \<and>
   map_option duration_minutes (stored_session
      (snd (endBookingSession_run operator 125000 131000 None None (Response 200) ''s1'' running_db))
      ''s1'') = Some (Some 3)"
  using duration_minutes_is_ceiling
      [of operator 125000 131000 "Response 200" "''s1''" running_db
          "sample_session ''s1'' ''b1'' Active 0" 0 0]
  by (simp add: Let_def running_rows) (simp add: sample_session_def)

subsection \<open>Webhook failures\<close>

lemma updateBookingStatus_hook_db:
  "snd (updateBookingStatus view now se h k s c d) = snd (updateBookingStatus view now se h' k s c d)"
  by (simp add: updateBookingStatus_def Let_def split: option.splits)

lemma updateBookingStatus_hook_toasts:
  "fetch_settles h \<Longrightarrow> fetch_settles h' \<Longrightarrow>
   toasts (fst (updateBookingStatus view now se h k s c d)) =
   toasts (fst (updateBookingStatus view now se h' k s c d))"
  by (simp add: updateBookingStatus_def Let_def toasts_def split: option.splits)

lemma updateBookingStatus_hook_logged:
  "fetch_throws h \<Longrightarrow> viewed_status view k \<noteq> None \<Longrightarrow>
   webhook_failed \<in> set (fst (updateBookingStatus view now None h k s c d))"
  by (cases h) (auto simp: updateBookingStatus_def Let_def webhook_failed_def viewed_status_def
      split: option.splits)

lemma updateBookingStatus_hook_silent:
  "\<not> fetch_throws h \<Longrightarrow> webhook_failed \<notin> set (fst (updateBookingStatus view now se h k s c d))"
  by (auto simp: updateBookingStatus_def Let_def webhook_failed_def split: option.splits)

lemma updateBookingStatus_hook_pending:
  "\<not> fetch_settles h \<Longrightarrow> viewed_status view k \<noteq> None \<Longrightarrow>
   fst (updateBookingStatus view now None h k s c d) = []"
  by (auto simp: updateBookingStatus_def Let_def viewed_status_def split: option.splits)

lemma updateBookingStatus_succeeded_None:
  "succeeded (fst (updateBookingStatus view now se h k s c d)) \<Longrightarrow> se = None"
  by (cases se) (simp_all add: updateBookingStatus_err succeeded_def)

lemma endBookingSession_hook_db:
  "snd (endBookingSession user now se ue h k d) = snd (endBookingSession user now se ue h' k d)"
  by (simp add: endBookingSession_def Let_def split: option.splits prod.splits)

lemma endBookingSession_hook_toasts:
  "fetch_settles h \<Longrightarrow> fetch_settles h' \<Longrightarrow>
   toasts (fst (endBookingSession user now se ue h k d)) =
   toasts (fst (endBookingSession user now se ue h' k d))"
  by (simp add: endBookingSession_def Let_def toasts_def end_failed_def split: option.splits prod.splits)

lemma endBookingSession_hook_logged:
  "fetch_throws h \<Longrightarrow> succeeded (fst (endBookingSession user now se ue h k d)) \<Longrightarrow>
   webhook_failed \<in> set (fst (endBookingSession user now se ue h k d))"
  by (cases h) (auto simp: endBookingSession_def Let_def webhook_failed_def end_failed_def succeeded_def
      split: option.splits prod.splits if_splits)

lemma endBookingSession_hook_silent:
  "\<not> fetch_throws h \<Longrightarrow> sessions_with_id d k = [x] \<Longrightarrow> joined_booking d x \<noteq> None \<Longrightarrow>
   webhook_failed \<notin> set (fst (endBookingSession user now None None h k d))"
  by (simp add: endBookingSession_one_row webhook_failed_def)

lemma endBookingSession_hook_pending:
  "\<not> fetch_settles h \<Longrightarrow> sessions_with_id d k = [x] \<Longrightarrow> joined_booking d x \<noteq> None \<Longrightarrow>
   fst (endBookingSession user now None None h k d) = []"
  by (simp add: endBookingSession_one_row)

lemma endBookingSession_no_booking:
  "sessions_with_id d k = [x] \<Longrightarrow> joined_booking d x = None \<Longrightarrow>
   webhook_failed \<in> set (fst (endBookingSession user now None None h k d)) \<and>
   succeeded (fst (endBookingSession user now None None h k d))"
  by (simp add: endBookingSession_one_row webhook_failed_def succeeded_def)

text \<open>
  The webhook answers 500: both handlers succeed, and neither writes the console line of
  a failed webhook, since \<^verbatim>\<open>fetch\<close> resolves and the response is not looked at. The webhook
  does not answer: the transition is committed and its handler never shows the success
  toast that it shows when the webhook answers 200.
\<close>

theorem dispatch_non_2xx_counterexample:
  "spec_dispatch_failure (Response 500) \<and>
   succeeded (fst (updateBookingStatus stale_view 5 None (Response 500) ''b1'' Confirmed None
                (moved_db Pending))) \<and>
   webhook_failed \<notin> set (fst (updateBookingStatus stale_view 5 None (Response 500) ''b1''
                Confirmed None (moved_db Pending))) \<and>
   succeeded (fst (endBookingSession operator 125000 None None (Response 500) ''s1'' running_db)) \<and>
   webhook_failed \<notin> set (fst (endBookingSession operator 125000 None None (Response 500) ''s1''
                running_db)) \<and>
   spec_dispatch_failure Never_settles \<and>
   succeeded (fst (updateBookingStatus stale_view 5 None (Response 200) ''b1'' Confirmed None
                (moved_db Pending))) \<and>
   \<not> succeeded (fst (updateBookingStatus stale_view 5 None Never_settles ''b1'' Confirmed None
                (moved_db Pending))) \<and>
   stored_status (snd (updateBookingStatus stale_view 5 None Never_settles ''b1'' Confirmed None
                (moved_db Pending))) ''b1'' = Some Confirmed"
proof -
  have quiet: "webhook_failed \<notin> set (fst (endBookingSession operator 125000 None None
      (Response 500) ''s1'' running_db))"
    using endBookingSession_hook_silent [OF _ running_rows running_joined, of "Response 500"]
    by simp
  have pending: "fst (updateBookingStatus stale_view 5 None Never_settles ''b1'' Confirmed None
      (moved_db Pending)) = []"
    using updateBookingStatus_hook_pending [of Never_settles stale_view "''b1''"]
    by (simp add: sample_viewed_status)
  have no_toast: "\<not> succeeded []"
    by (simp add: succeeded_def)
  show ?thesis
    by (simp add: quiet pending no_toast updateBookingStatus_ok_events
          updateBookingStatus_hook_silent endBookingSession_one_row_succeeded [OF running_rows]
          updateBookingStatus_ok_db stored_status_update)
qed

text \<open>
  Claim C9, as amended. After a committed transition or session end, the outcome of the
  webhook request never changes the store, and between two outcomes that settle it does
  not change the toasts of the handler either. A request that throws (a network error) is
  caught and logged inside the dispatch step. A response outside 200..299 is not
  detected: for a transition nothing is logged unless the request throws, and the same
  holds for a session end whose session has a booking. A session end whose session has no
  booking throws while its request is built and is logged, and it succeeds whatever the
  webhook does. The handlers set no timeout: when the request never settles, a transition
  of a booking in the local list, or an end of a session with a booking, is committed but
  its handler shows nothing, the success toast included.
\<close>

theorem dispatch_failure_absorbed:
  "let r = updateBookingStatus view now se h k s c d;
       r' = updateBookingStatus view now se h' k s c d;
       q = endBookingSession user t se1 se2 h sessionId dd;
       q' = endBookingSession user t se1 se2 h' sessionId dd
   in snd r = snd r' \<and> snd q = snd q' \<and>
      (fetch_settles h \<and> fetch_settles h' \<longrightarrow>
         toasts (fst r) = toasts (fst r') \<and> toasts (fst q) = toasts (fst q')) \<and>
      (fetch_throws h \<and> succeeded (fst r) \<and> viewed_status view k \<noteq> None \<longrightarrow>
         webhook_failed \<in> set (fst r)) \<and>
      (fetch_throws h \<and> succeeded (fst q) \<longrightarrow> webhook_failed \<in> set (fst q)) \<and>
      (\<not> fetch_throws h \<longrightarrow> webhook_failed \<notin> set (fst r)) \<and>
      (se1 = None \<and> se2 = None \<and> sessions_with_id dd sessionId = [x] \<longrightarrow>
         (\<not> fetch_throws h \<and> joined_booking dd x \<noteq> None \<longrightarrow> webhook_failed \<notin> set (fst q)) \<and>
         (joined_booking dd x = None \<longrightarrow> webhook_failed \<in> set (fst q) \<and> succeeded (fst q)) \<and>
         (\<not> fetch_settles h \<and> joined_booking dd x \<noteq> None \<longrightarrow> fst q = [])) \<and>
      (\<not> fetch_settles h \<and> se = None \<and> viewed_status view k \<noteq> None \<longrightarrow> fst r = [])"
proof -
  have logged: "fetch_throws h \<and> succeeded (fst (updateBookingStatus view now se h k s c d)) \<and>
      viewed_status view k \<noteq> None \<longrightarrow>
      webhook_failed \<in> set (fst (updateBookingStatus view now se h k s c d))"
    using updateBookingStatus_succeeded_None [of view now se h k s c d]
    by (auto simp: updateBookingStatus_hook_logged)
  have pending: "\<not> fetch_settles h \<and> se = None \<and> viewed_status view k \<noteq> None \<longrightarrow>
      fst (updateBookingStatus view now se h k s c d) = []"
    by (auto simp: updateBookingStatus_hook_pending)
  have ends: "se1 = None \<and> se2 = None \<and> sessions_with_id dd sessionId = [x] \<longrightarrow>
         (\<not> fetch_throws h \<and> joined_booking dd x \<noteq> None \<longrightarrow>
            webhook_failed \<notin> set (fst (endBookingSession user t se1 se2 h sessionId dd))) \<and>
         (joined_booking dd x = None \<longrightarrow>
            webhook_failed \<in> set (fst (endBookingSession user t se1 se2 h sessionId dd)) \<and>
            succeeded (fst (endBookingSession user t se1 se2 h sessionId dd))) \<and>
         (\<not> fetch_settles h \<and> joined_booking dd x \<noteq> None \<longrightarrow>
            fst (endBookingSession user t se1 se2 h sessionId dd) = [])"
    using endBookingSession_hook_silent [of h dd sessionId x user t]
      endBookingSession_no_booking [of dd sessionId x user t h]
      endBookingSession_hook_pending [of h dd sessionId x user t]
    by blast
  show ?thesis
    unfolding Let_def
    using logged pending ends updateBookingStatus_hook_db [of view now se h k s c d h']
      updateBookingStatus_hook_toasts [of h h' view now se k s c d]
      endBookingSession_hook_db [of user t se1 se2 h sessionId dd h']
      endBookingSession_hook_toasts [of h h' user t se1 se2 sessionId dd]
      endBookingSession_hook_logged [of h user t se1 se2 sessionId dd]
      updateBookingStatus_hook_silent [of h view now se k s c d]
    by blast
qed

theorem dispatch_failure_absorbed_witness:
  "fetch_throws NetworkFailure \<and> fetch_settles NetworkFailure \<and> fetch_settles (Response 200) \<and>
   viewed_status stale_view ''b1'' \<noteq> None \<and>
   sessions_with_id running_db ''s1'' = [sample_session ''s1'' ''b1'' Active 0] \<and>
   succeeded (fst (updateBookingStatus stale_view 5 None NetworkFailure ''b1'' Confirmed None
                (moved_db Pending))) \<and>
   webhook_failed \<in> set (fst (updateBookingStatus stale_view 5 None NetworkFailure ''b1'' Confirmed
                None (moved_db Pending))) \<and>
   snd (updateBookingStatus stale_view 5 None NetworkFailure ''b1'' Confirmed None (moved_db Pending)) =
   snd (updateBookingStatus stale_view 5 None (Response 200) ''b1'' Confirmed None (moved_db Pending)) \<and>
   toasts (fst (updateBookingStatus stale_view 5 None NetworkFailure ''b1'' Confirmed None
                (moved_db Pending))) =
   toasts (fst (updateBookingStatus stale_view 5 None (Response 200) ''b1'' Confirmed None
                (moved_db Pending))) \<and>
   succeeded (fst (endBookingSession operator 125000 None None NetworkFailure ''s1'' running_db)) \<and>
   webhook_failed \<in> set (fst (endBookingSession operator 125000 None None NetworkFailure ''s1''
                running_db)) \<and>
   snd (endBookingSession operator 125000 None None NetworkFailure ''s1'' running_db) =
   snd (endBookingSession operator 125000 None None (Response 200) ''s1'' running_db)"
  using dispatch_failure_absorbed
    [of stale_view 5 None NetworkFailure "''b1''" Confirmed None "moved_db Pending" "Response 200"
        operator 125000 None None "''s1''" running_db "sample_session ''s1'' ''b1'' Active 0"]
  by (simp add: Let_def sample_viewed_status updateBookingStatus_ok_events running_rows
        endBookingSession_one_row_succeeded [OF running_rows])


subsection \<open>Revenue\<close>

lemma foldl_plus: "foldl (\<lambda>sum b. sum + f b) a bs = a + sum_list (map f bs)"
  for a :: int
  by (induction bs arbitrary: a) simp_all

lemma or_zero_id: "or_zero x = x"
  by (simp add: or_zero_def)

lemma stats_revenue_all: "totalRevenue (fetchDashboardData_stats bs us) = sum_list (map total_price bs)"
  by (simp add: fetchDashboardData_stats_def or_zero_id foldl_plus)

lemma stats_page_revenue: "totalRevenue (fetchDashboardData_stats_page bs n) = spec_revenue bs"
  by (simp add: fetchDashboardData_stats_page_def foldl_plus spec_revenue_def)

text \<open>
  Claim C8. On three confirmed bookings of 100, 200 and 300 and a pending one of 50 the
  unnamed module's statistics give a total revenue of 650, with 3 confirmed and 1 pending
  booking: its sum runs over every booking. The sum over the confirmed bookings is 600,
  which is what \<^verbatim>\<open>src/pages/AdminDashboard.tsx\<close> computes.
\<close>

theorem totalRevenue_counts_every_booking:
  "totalRevenue (fetchDashboardData_stats revenue_sample []) = 650 \<and>
   confirmedBookings (fetchDashboardData_stats revenue_sample []) = 3 \<and>
   pendingBookings (fetchDashboardData_stats revenue_sample []) = 1 \<and>
   spec_revenue revenue_sample = 600 \<and>
   totalRevenue (fetchDashboardData_stats_page revenue_sample 0) = 600"
  by (simp add: stats_revenue_all stats_page_revenue)
     (simp add: fetchDashboardData_stats_def spec_revenue_def revenue_sample_def sample_booking_def)

subsection \<open>Lemmas on starting a session\<close>

lemma check_not_in_view:
  "viewed_status view k = None \<Longrightarrow> startBookingSession_check view ce k d = Stop start_failed"
  by (simp add: startBookingSession_check_def viewed_status_def split: option.splits)

lemma check_no_rows:
  "find (\<lambda>b. bid b = k) view = Some b \<Longrightarrow> sessions_of_booking d k = [] \<Longrightarrow>
   startBookingSession_check view None k d = Proceed b"
  by (simp add: startBookingSession_check_def sessions_of_booking_def)

lemma check_one_row:
  "find (\<lambda>b. bid b = k) view = Some b \<Longrightarrow> sessions_of_booking d k = [s] \<Longrightarrow>
   startBookingSession_check view None k d =
     (if s_status s = Active then Stop [toast_error ''Session is already active for this booking'']
      else Proceed b)"
  by (simp add: startBookingSession_check_def sessions_of_booking_def)

lemma viewed_status_Some:
  "viewed_status view k \<noteq> None \<Longrightarrow> \<exists>b. find (\<lambda>b. bid b = k) view = Some b"
  by (cases "find (\<lambda>b. bid b = k) view") (simp_all add: viewed_status_def)

lemma insert_ok:
  "startBookingSession_insert user None nid t k b d =
     ([toast_success ''Booking session started successfully''],
      d\<lparr>user_sessions_tbl := user_sessions_tbl d @ [new_session user nid t k b]\<rparr>)"
  by (simp add: startBookingSession_insert_def new_session_def)

lemma insert_err: "startBookingSession_insert user (Some e) nid t k b d = (start_failed, d)"
  by (simp add: startBookingSession_insert_def)

lemma sessions_of_booking_append:
  "sessions_of_booking (d\<lparr>user_sessions_tbl := user_sessions_tbl d @ [new_session user nid t k b]\<rparr>) k
     = sessions_of_booking d k @ [new_session user nid t k b]"
  by (simp add: sessions_of_booking_def new_session_def)

lemma active_sessions_append:
  "active_sessions_of (d\<lparr>user_sessions_tbl := user_sessions_tbl d @ [new_session user nid t k b]\<rparr>) k
     = active_sessions_of d k @ [new_session user nid t k b]"
  by (simp add: active_sessions_of_def new_session_def)

lemma active_sessions_sub:
  "active_sessions_of d k = filter (\<lambda>s. s_status s = Active) (sessions_of_booking d k)"
  by (simp add: active_sessions_of_def sessions_of_booking_def conj_commute)

lemma start_failed_keeps_db:
  "failed (fst (startBookingSession user view ce ie nid t k d)) \<Longrightarrow>
   snd (startBookingSession user view ce ie nid t k d) = d"
  by (cases "startBookingSession_check view ce k d"; cases ie)
     (simp_all add: startBookingSession_def insert_ok insert_err failed_def)

lemma start_page_failed_keeps_db:
  "failed (fst (startBookingSession_page user ce ie nid t k u d)) \<Longrightarrow>
   snd (startBookingSession_page user ce ie nid t k u d) = d"
  by (auto simp: startBookingSession_page_def Let_def failed_def split: if_splits option.splits prod.splits)

lemma find_user_id_update:
  "find (\<lambda>b. bid b = k) (map (\<lambda>b. b\<lparr>user_id := u\<rparr>) view) =
     map_option (\<lambda>b. b\<lparr>user_id := u\<rparr>) (find (\<lambda>b. bid b = k) view)"
  by (induction view) auto

lemma check_user_id_update:
  "startBookingSession_check (map (\<lambda>b. b\<lparr>user_id := u\<rparr>) view) ce k d =
     (case startBookingSession_check view ce k d of
        Proceed b \<Rightarrow> Proceed (b\<lparr>user_id := u\<rparr>) | Stop evs \<Rightarrow> Stop evs)"
  by (simp add: startBookingSession_check_def find_user_id_update Let_def
      split: option.splits prod.splits)

lemma start_events_user_id:
  "fst (startBookingSession user (map (\<lambda>b. b\<lparr>user_id := u\<rparr>) view) ce ie nid t k d) =
   fst (startBookingSession user view ce ie nid t k d)"
  by (cases "startBookingSession_check view ce k d"; cases ie)
     (simp_all add: startBookingSession_def check_user_id_update insert_ok insert_err)

subsection \<open>The user of a started session\<close>

text \<open>
  Claim C10. When the booking has no user and the query lets the handler go on, the
  session that is inserted belongs to the operator: the start succeeds and the new row
  carries the operator's id as user, the booking's id and the status active. The events of
  a start are the same whether or not the bookings of the local list have a user: a
  booking is never refused for lacking one.
\<close>

theorem session_user_falls_back_to_operator:
  "let r = startBookingSession user view ce None nid t k d
   in (startBookingSession_check view ce k d = Proceed b \<and> user_id b = None \<longrightarrow>
         succeeded (fst r) \<and> \<not> failed (fst r) \<and>
         map s_user_id (user_sessions_tbl (snd r)) = map s_user_id (user_sessions_tbl d) @ [uid user] \<and>
         map booking_id (user_sessions_tbl (snd r)) = map booking_id (user_sessions_tbl d) @ [Some k] \<and>
         map s_status (user_sessions_tbl (snd r)) = map s_status (user_sessions_tbl d) @ [Active]) \<and>
      fst (startBookingSession user (map (\<lambda>b. b\<lparr>user_id := None\<rparr>) view) ce ie nid t k d) =
      fst (startBookingSession user view ce ie nid t k d)"
  unfolding Let_def
  by (simp add: start_events_user_id)
     (simp add: startBookingSession_def insert_ok new_session_def succeeded_def failed_def)

theorem session_user_falls_back_to_operator_witness:
  "startBookingSession_check confirmed_view None ''b1'' idle_db
     = Proceed (sample_booking ''b1'' Confirmed 100 None) \<and>
   user_id (sample_booking ''b1'' Confirmed 100 None) = None \<and>
   succeeded (fst (startBookingSession operator confirmed_view None None ''s1'' 1000 ''b1'' idle_db)) \<and>
   map s_user_id (user_sessions_tbl
     (snd (startBookingSession operator confirmed_view None None ''s1'' 1000 ''b1'' idle_db)))
     = [''admin1'']"
proof -
  have chk: "startBookingSession_check confirmed_view None ''b1'' idle_db
     = Proceed (sample_booking ''b1'' Confirmed 100 None)"
    by (simp add: startBookingSession_check_def confirmed_view_def idle_db_def sample_booking_def)
  have usr: "user_id (sample_booking ''b1'' Confirmed 100 None) = None"
    by (simp add: sample_booking_def)
  show ?thesis
    using session_user_falls_back_to_operator
      [of operator confirmed_view None "''s1''" 1000 "''b1''" idle_db
          "sample_booking ''b1'' Confirmed 100 None" None] chk usr
    by (simp add: Let_def idle_db_def operator_def)
qed

subsection \<open>Two start handlers for one booking\<close>

lemma start_step_twice:
  "start_step c (start_step c (Not_started, d)) = (Finished (fst (call_result c d)), snd (call_result c d))"
  by (cases "startBookingSession_check (sc_bookings c) (sc_check_err c) (sc_bookingId c) d")
     (simp_all add: call_result_def startBookingSession_def split: prod.splits)

lemma run_two_sequential:
  "run_two (start_step c1) (start_step c2) [True, True, False, False] (Not_started, Not_started, d) =
     (Finished (fst (call_result c1 d)),
      Finished (fst (call_result c2 (snd (call_result c1 d)))),
      snd (call_result c2 (snd (call_result c1 d))))"
proof -
  obtain p d1 where s1: "start_step c1 (Not_started, d) = (p, d1)"
    by (cases "start_step c1 (Not_started, d)")
  have t1: "start_step c1 (p, d1) = (Finished (fst (call_result c1 d)), snd (call_result c1 d))"
    using start_step_twice [of c1 d] s1 by simp
  obtain q d2 where s2: "start_step c2 (Not_started, snd (call_result c1 d)) = (q, d2)"
    by (cases "start_step c2 (Not_started, snd (call_result c1 d))")
  have t2: "start_step c2 (q, d2) =
      (Finished (fst (call_result c2 (snd (call_result c1 d)))),
       snd (call_result c2 (snd (call_result c1 d))))"
    using start_step_twice [of c2 "snd (call_result c1 d)"] s2 by simp
  show ?thesis by (simp add: s1 t1 s2 t2 del: start_step.simps)
qed

lemma call_result_first:
  assumes "find (\<lambda>b. bid b = sc_bookingId c) (sc_bookings c) = Some b"
    and "sc_check_err c = None" and "sc_insert_err c = None"
    and "sessions_of_booking d (sc_bookingId c) = []"
  shows "call_result c d =
     ([toast_success ''Booking session started successfully''],
      d\<lparr>user_sessions_tbl := user_sessions_tbl d @
          [new_session (sc_user c) (sc_new_id c) (sc_db_now c) (sc_bookingId c) b]\<rparr>)"
  using assms by (simp add: call_result_def startBookingSession_def check_no_rows insert_ok)

lemma call_result_second:
  assumes "find (\<lambda>b. bid b = sc_bookingId c) (sc_bookings c) = Some b"
    and "sc_check_err c = None"
    and "sessions_of_booking d (sc_bookingId c) = [s]" and "s_status s = Active"
  shows "call_result c d = ([toast_error ''Session is already active for this booking''], d)"
  using assms by (simp add: call_result_def startBookingSession_def check_one_row)

lemma new_session_active: "s_status (new_session u n t k b) = Active"
  by (simp add: new_session_def)

lemma run_two_interleaved:
  assumes v1: "find (\<lambda>b. bid b = k) (sc_bookings c1) = Some b1"
    and v2: "find (\<lambda>b. bid b = k) (sc_bookings c2) = Some b2"
    and k1: "sc_bookingId c1 = k" and k2: "sc_bookingId c2 = k"
    and e: "sc_check_err c1 = None" "sc_check_err c2 = None"
           "sc_insert_err c1 = None" "sc_insert_err c2 = None"
    and none: "sessions_of_booking d k = []"
  shows "run_two (start_step c1) (start_step c2) [True, False, True, False] (Not_started, Not_started, d) =
     (Finished [toast_success ''Booking session started successfully''],
      Finished [toast_success ''Booking session started successfully''],
      d\<lparr>user_sessions_tbl := user_sessions_tbl d @
          [new_session (sc_user c1) (sc_new_id c1) (sc_db_now c1) k b1,
           new_session (sc_user c2) (sc_new_id c2) (sc_db_now c2) k b2]\<rparr>)"
  using assms by (simp add: check_no_rows insert_ok)

lemma active_two_new:
  "sessions_of_booking d k = [] \<Longrightarrow>
   active_sessions_of (d\<lparr>user_sessions_tbl := user_sessions_tbl d @
          [new_session u1 n1 t1 k b1, new_session u2 n2 t2 k b2]\<rparr>) k
     = [new_session u1 n1 t1 k b1, new_session u2 n2 t2 k b2]"
  by (simp add: active_sessions_sub) (simp add: sessions_of_booking_def new_session_def)

lemma active_one_new:
  "sessions_of_booking d k = [] \<Longrightarrow>
   active_sessions_of (d\<lparr>user_sessions_tbl := user_sessions_tbl d @ [new_session u n t k b]\<rparr>) k
     = [new_session u n t k b]"
  by (simp add: active_sessions_sub) (simp add: sessions_of_booking_def new_session_def)

lemma first_call_view:
  "find (\<lambda>b. bid b = ''b1'') (sc_bookings first_call) = Some (sample_booking ''b1'' Confirmed 100 None)"
  by (simp add: first_call_def confirmed_view_def sample_booking_def)

lemma second_call_view:
  "find (\<lambda>b. bid b = ''b1'') (sc_bookings second_call) = Some (sample_booking ''b1'' Confirmed 100 None)"
  by (simp add: second_call_def confirmed_view_def sample_booking_def)

lemma idle_db_no_sessions: "sessions_of_booking idle_db ''b1'' = []"
  by (simp add: idle_db_def sessions_of_booking_def)

lemma sample_calls:
  "sc_bookingId first_call = ''b1''" "sc_bookingId second_call = ''b1''"
  "sc_check_err first_call = None" "sc_check_err second_call = None"
  "sc_insert_err first_call = None" "sc_insert_err second_call = None"
  by (simp_all add: first_call_def second_call_def)

lemma start_unnamed_two_calls:
  "let one = call_result c1 d;
       two = call_result c2 (snd one);
       mix = run_two (start_step c1) (start_step c2) [True, False, True, False] (Not_started, Not_started, d)
   in run_two (start_step c1) (start_step c2) [True, True, False, False] (Not_started, Not_started, d)
        = (Finished (fst one), Finished (fst two), snd two) \<and>
      (sc_bookingId c1 = k \<and> sc_bookingId c2 = k \<and>
       viewed_status (sc_bookings c1) k \<noteq> None \<and> viewed_status (sc_bookings c2) k \<noteq> None \<and>
       sc_check_err c1 = None \<and> sc_check_err c2 = None \<and>
       sc_insert_err c1 = None \<and> sc_insert_err c2 = None \<and>
       sessions_of_booking d k = [] \<longrightarrow>
         succeeded (fst one) \<and> \<not> failed (fst one) \<and>
         fst two = [toast_error ''Session is already active for this booking''] \<and>
         length (active_sessions_of (snd two) k) = 1 \<and>
         pc_succeeded (fst mix) \<and> pc_succeeded (fst (snd mix)) \<and>
         length (active_sessions_of (snd (snd mix)) k) = 2)"
proof -
  have cond: "succeeded (fst (call_result c1 d)) \<and> \<not> failed (fst (call_result c1 d)) \<and>
      fst (call_result c2 (snd (call_result c1 d)))
        = [toast_error ''Session is already active for this booking''] \<and>
      length (active_sessions_of (snd (call_result c2 (snd (call_result c1 d)))) k) = 1 \<and>
      pc_succeeded (fst (run_two (start_step c1) (start_step c2) [True, False, True, False] (Not_started, Not_started, d))) \<and>
      pc_succeeded (fst (snd (run_two (start_step c1) (start_step c2) [True, False, True, False] (Not_started, Not_started, d)))) \<and>
      length (active_sessions_of (snd (snd (run_two (start_step c1) (start_step c2) [True, False, True, False]
        (Not_started, Not_started, d)))) k) = 2"
    if h: "sc_bookingId c1 = k" "sc_bookingId c2 = k"
      "viewed_status (sc_bookings c1) k \<noteq> None" "viewed_status (sc_bookings c2) k \<noteq> None"
      "sc_check_err c1 = None" "sc_check_err c2 = None"
      "sc_insert_err c1 = None" "sc_insert_err c2 = None"
      "sessions_of_booking d k = []"
  proof -
    obtain b1 where v1: "find (\<lambda>b. bid b = k) (sc_bookings c1) = Some b1"
      using viewed_status_Some [OF h(3)] by blast
    obtain b2 where v2: "find (\<lambda>b. bid b = k) (sc_bookings c2) = Some b2"
      using viewed_status_Some [OF h(4)] by blast
    let ?n1 = "new_session (sc_user c1) (sc_new_id c1) (sc_db_now c1) k b1"
    let ?d1 = "d\<lparr>user_sessions_tbl := user_sessions_tbl d @ [?n1]\<rparr>"
    have r1: "call_result c1 d = ([toast_success ''Booking session started successfully''], ?d1)"
      using call_result_first [of c1 b1 d] v1 h by simp
    have rows1: "sessions_of_booking ?d1 k = [?n1]"
      by (simp add: sessions_of_booking_append h(9))
    have r2: "call_result c2 ?d1 = ([toast_error ''Session is already active for this booking''], ?d1)"
      using call_result_second [of c2 b2 ?d1 ?n1] v2 h rows1 by (simp add: new_session_active)
    have a1: "active_sessions_of ?d1 k = [?n1]"
      by (rule active_one_new [OF h(9)])
    have mix: "run_two (start_step c1) (start_step c2) [True, False, True, False] (Not_started, Not_started, d) =
       (Finished [toast_success ''Booking session started successfully''],
        Finished [toast_success ''Booking session started successfully''],
        d\<lparr>user_sessions_tbl := user_sessions_tbl d @
            [?n1, new_session (sc_user c2) (sc_new_id c2) (sc_db_now c2) k b2]\<rparr>)"
      by (rule run_two_interleaved [OF v1 v2 h(1) h(2) h(5) h(6) h(7) h(8) h(9)])
    have r2': "call_result c2 (snd (call_result c1 d)) =
        ([toast_error ''Session is already active for this booking''], ?d1)"
      by (simp add: r1 r2)
    show ?thesis
      unfolding mix
      by (simp add: r1 r2 a1 active_two_new [OF h(9)] succeeded_def failed_def)
  qed
  show ?thesis
    unfolding Let_def using cond run_two_sequential [of c1 c2 d] by blast
qed

lemma start_page_steps:
  "startBookingSession_page user ce ie nid t k uo d =
     (case startBookingSession_page_check ce uo d of
        Stop_page evs \<Rightarrow> (evs, d)
      | Proceed_page u \<Rightarrow> startBookingSession_page_insert user ie nid t k u d)"
  by (simp add: startBookingSession_page_def startBookingSession_page_check_def
        startBookingSession_page_insert_def page_session_def Let_def
      split: option.splits prod.splits)

lemma page_step_twice:
  "page_step c (page_step c (Not_started, d)) = (Finished (fst (page_result c d)), snd (page_result c d))"
  by (cases "startBookingSession_page_check (pg_check_err c) (pg_userId c) d")
     (simp_all add: page_result_def start_page_steps split: prod.splits)

lemma run_two_page_sequential:
  "run_two (page_step c1) (page_step c2) [True, True, False, False] (Not_started, Not_started, d) =
     (Finished (fst (page_result c1 d)),
      Finished (fst (page_result c2 (snd (page_result c1 d)))),
      snd (page_result c2 (snd (page_result c1 d))))"
proof -
  obtain p d1 where s1: "page_step c1 (Not_started, d) = (p, d1)"
    by (cases "page_step c1 (Not_started, d)")
  have t1: "page_step c1 (p, d1) = (Finished (fst (page_result c1 d)), snd (page_result c1 d))"
    using page_step_twice [of c1 d] s1 by simp
  obtain q d2 where s2: "page_step c2 (Not_started, snd (page_result c1 d)) = (q, d2)"
    by (cases "page_step c2 (Not_started, snd (page_result c1 d))")
  have t2: "page_step c2 (q, d2) =
      (Finished (fst (page_result c2 (snd (page_result c1 d)))),
       snd (page_result c2 (snd (page_result c1 d))))"
    using page_step_twice [of c2 "snd (page_result c1 d)"] s2 by simp
  show ?thesis by (simp add: s1 t1 s2 t2 del: page_step.simps)
qed

lemma page_check_no_rows:
  "u \<noteq> [] \<Longrightarrow> active_sessions_of_user d u = [] \<Longrightarrow>
   startBookingSession_page_check None (Some u) d = Proceed_page u"
  by (simp add: startBookingSession_page_check_def active_sessions_of_user_def)

lemma page_check_one_row:
  "u \<noteq> [] \<Longrightarrow> active_sessions_of_user d u = [x] \<Longrightarrow>
   startBookingSession_page_check None (Some u) d =
     Stop_page [toast_error ''User already has an active session'']"
  by (simp add: startBookingSession_page_check_def active_sessions_of_user_def)

lemma page_insert_ok:
  "startBookingSession_page_insert user None nid t k u d =
     ([toast_success ''Booking session started successfully''],
      d\<lparr>user_sessions_tbl := user_sessions_tbl d @ [page_session user nid t k u]\<rparr>)"
  by (simp add: startBookingSession_page_insert_def)

lemma user_sessions_append:
  "active_sessions_of_user (d\<lparr>user_sessions_tbl := user_sessions_tbl d @ rows\<rparr>) u =
     active_sessions_of_user d u @ filter (\<lambda>s. s_user_id s = u \<and> s_status s = Active) rows"
  by (simp add: active_sessions_of_user_def)

lemma booking_sessions_append:
  "active_sessions_of (d\<lparr>user_sessions_tbl := user_sessions_tbl d @ rows\<rparr>) k =
     active_sessions_of d k @ filter (\<lambda>s. booking_id s = Some k \<and> s_status s = Active) rows"
  by (simp add: active_sessions_of_def)

lemma page_session_fields:
  "s_user_id (page_session user nid t k u) = u"
  "s_status (page_session user nid t k u) = Active"
  "booking_id (page_session user nid t k u) = Some k"
  by (simp_all add: page_session_def)

lemma page_result_first:
  assumes "pg_userId c = Some u" and "u \<noteq> []"
    and "pg_check_err c = None" and "pg_insert_err c = None"
    and "active_sessions_of_user d u = []"
  shows "page_result c d =
     ([toast_success ''Booking session started successfully''],
      d\<lparr>user_sessions_tbl := user_sessions_tbl d @
          [page_session (pg_user c) (pg_new_id c) (pg_db_now c) (pg_bookingId c) u]\<rparr>)"
  using assms by (simp add: page_result_def start_page_steps page_check_no_rows page_insert_ok)

lemma page_result_second:
  assumes "pg_userId c = Some u" and "u \<noteq> []" and "pg_check_err c = None"
    and "active_sessions_of_user d u = [x]"
  shows "page_result c d = ([toast_error ''User already has an active session''], d)"
  using assms by (simp add: page_result_def start_page_steps page_check_one_row)

lemma run_two_page_interleaved:
  assumes "pg_userId c1 = Some u" and "pg_userId c2 = Some u" and "u \<noteq> []"
    and "pg_check_err c1 = None" "pg_check_err c2 = None"
        "pg_insert_err c1 = None" "pg_insert_err c2 = None"
    and "active_sessions_of_user d u = []"
  shows "run_two (page_step c1) (page_step c2) [True, False, True, False]
           (Not_started, Not_started, d) =
     (Finished [toast_success ''Booking session started successfully''],
      Finished [toast_success ''Booking session started successfully''],
      d\<lparr>user_sessions_tbl := user_sessions_tbl d @
          [page_session (pg_user c1) (pg_new_id c1) (pg_db_now c1) (pg_bookingId c1) u,
           page_session (pg_user c2) (pg_new_id c2) (pg_db_now c2) (pg_bookingId c2) u]\<rparr>)"
  using assms by (simp add: page_check_no_rows page_insert_ok)

lemma start_page_two_calls:
  "let one = page_result c1 d;
       two = page_result c2 (snd one);
       mix = run_two (page_step c1) (page_step c2) [True, False, True, False]
               (Not_started, Not_started, d)
   in run_two (page_step c1) (page_step c2) [True, True, False, False] (Not_started, Not_started, d)
        = (Finished (fst one), Finished (fst two), snd two) \<and>
      (pg_bookingId c1 = k \<and> pg_bookingId c2 = k \<and>
       pg_userId c1 = Some u \<and> pg_userId c2 = Some u \<and> u \<noteq> [] \<and>
       pg_check_err c1 = None \<and> pg_check_err c2 = None \<and>
       pg_insert_err c1 = None \<and> pg_insert_err c2 = None \<and>
       active_sessions_of_user d u = [] \<longrightarrow>
         succeeded (fst one) \<and> \<not> failed (fst one) \<and>
         fst two = [toast_error ''User already has an active session''] \<and>
         length (active_sessions_of_user (snd two) u) = 1 \<and>
         length (active_sessions_of (snd two) k) = length (active_sessions_of d k) + 1 \<and>
         pc_succeeded (fst mix) \<and> pc_succeeded (fst (snd mix)) \<and>
         length (active_sessions_of_user (snd (snd mix)) u) = 2 \<and>
         length (active_sessions_of (snd (snd mix)) k) = length (active_sessions_of d k) + 2)"
proof -
  have cond: "succeeded (fst (page_result c1 d)) \<and> \<not> failed (fst (page_result c1 d)) \<and>
      fst (page_result c2 (snd (page_result c1 d)))
        = [toast_error ''User already has an active session''] \<and>
      length (active_sessions_of_user (snd (page_result c2 (snd (page_result c1 d)))) u) = 1 \<and>
      length (active_sessions_of (snd (page_result c2 (snd (page_result c1 d)))) k)
        = length (active_sessions_of d k) + 1 \<and>
      pc_succeeded (fst (run_two (page_step c1) (page_step c2) [True, False, True, False]
        (Not_started, Not_started, d))) \<and>
      pc_succeeded (fst (snd (run_two (page_step c1) (page_step c2) [True, False, True, False]
        (Not_started, Not_started, d)))) \<and>
      length (active_sessions_of_user (snd (snd (run_two (page_step c1) (page_step c2)
        [True, False, True, False] (Not_started, Not_started, d)))) u) = 2 \<and>
      length (active_sessions_of (snd (snd (run_two (page_step c1) (page_step c2)
        [True, False, True, False] (Not_started, Not_started, d)))) k)
        = length (active_sessions_of d k) + 2"
    if h: "pg_bookingId c1 = k" "pg_bookingId c2 = k"
      "pg_userId c1 = Some u" "pg_userId c2 = Some u" "u \<noteq> []"
      "pg_check_err c1 = None" "pg_check_err c2 = None"
      "pg_insert_err c1 = None" "pg_insert_err c2 = None"
      "active_sessions_of_user d u = []"
  proof -
    let ?n1 = "page_session (pg_user c1) (pg_new_id c1) (pg_db_now c1) k u"
    let ?n2 = "page_session (pg_user c2) (pg_new_id c2) (pg_db_now c2) k u"
    let ?d1 = "d\<lparr>user_sessions_tbl := user_sessions_tbl d @ [?n1]\<rparr>"
    have r1: "page_result c1 d = ([toast_success ''Booking session started successfully''], ?d1)"
      using page_result_first [of c1 u d] h by simp
    have rows1: "active_sessions_of_user ?d1 u = [?n1]"
      by (simp add: user_sessions_append h(10) page_session_fields)
    have r2: "page_result c2 ?d1 = ([toast_error ''User already has an active session''], ?d1)"
      using page_result_second [of c2 u ?d1 ?n1] h rows1 by simp
    have b1: "active_sessions_of ?d1 k = active_sessions_of d k @ [?n1]"
      by (simp add: booking_sessions_append page_session_fields)
    have mix: "run_two (page_step c1) (page_step c2) [True, False, True, False]
        (Not_started, Not_started, d) =
       (Finished [toast_success ''Booking session started successfully''],
        Finished [toast_success ''Booking session started successfully''],
        d\<lparr>user_sessions_tbl := user_sessions_tbl d @ [?n1, ?n2]\<rparr>)"
      using run_two_page_interleaved [OF h(3) h(4) h(5) h(6) h(7) h(8) h(9) h(10)] h(1) h(2)
      by simp
    show ?thesis
      unfolding mix
      by (simp add: r1 r2 rows1 b1 user_sessions_append booking_sessions_append
            page_session_fields h(10) succeeded_def failed_def)
  qed
  show ?thesis
    unfolding Let_def using cond run_two_page_sequential [of c1 c2 d] by blast
qed

lemma sample_page_calls:
  "pg_userId first_page_call = Some ''u1''" "pg_userId second_page_call = Some ''u1''"
  "pg_check_err first_page_call = None" "pg_check_err second_page_call = None"
  "pg_insert_err first_page_call = None" "pg_insert_err second_page_call = None"
  "pg_bookingId first_page_call = ''b1''" "pg_bookingId second_page_call = ''b1''"
  by (simp_all add: first_page_call_def second_page_call_def)

lemma idle_db_no_user_sessions: "active_sessions_of_user idle_db ''u1'' = []"
  by (simp add: idle_db_def active_sessions_of_user_def)

lemma idle_db_no_active: "active_sessions_of idle_db ''b1'' = []"
  by (simp add: idle_db_def active_sessions_of_def)

text \<open>
  Two operators start a session for b1, which has none. Both queries run before either
  insert: in either module both handlers succeed and b1 has two active sessions.
\<close>

theorem start_race_counterexample:
  "pc_succeeded (fst (run_two (start_step first_call) (start_step second_call)
                   [True, False, True, False] (Not_started, Not_started, idle_db))) \<and>
   pc_succeeded (fst (snd (run_two (start_step first_call) (start_step second_call)
                   [True, False, True, False] (Not_started, Not_started, idle_db)))) \<and>
   length (active_sessions_of (snd (snd (run_two (start_step first_call) (start_step second_call)
                   [True, False, True, False] (Not_started, Not_started, idle_db)))) ''b1'') = 2 \<and>
   pc_succeeded (fst (run_two (page_step first_page_call) (page_step second_page_call)
                   [True, False, True, False] (Not_started, Not_started, idle_db))) \<and>
   pc_succeeded (fst (snd (run_two (page_step first_page_call) (page_step second_page_call)
                   [True, False, True, False] (Not_started, Not_started, idle_db)))) \<and>
   length (active_sessions_of (snd (snd (run_two (page_step first_page_call)
                   (page_step second_page_call) [True, False, True, False]
                   (Not_started, Not_started, idle_db)))) ''b1'') = 2"
proof -
  have mix: "run_two (start_step first_call) (start_step second_call) [True, False, True, False]
      (Not_started, Not_started, idle_db) =
     (Finished [toast_success ''Booking session started successfully''],
      Finished [toast_success ''Booking session started successfully''],
      idle_db\<lparr>user_sessions_tbl := user_sessions_tbl idle_db @
          [new_session (sc_user first_call) (sc_new_id first_call) (sc_db_now first_call) ''b1''
             (sample_booking ''b1'' Confirmed 100 None),
           new_session (sc_user second_call) (sc_new_id second_call) (sc_db_now second_call) ''b1''
             (sample_booking ''b1'' Confirmed 100 None)]\<rparr>)"
    by (rule run_two_interleaved [OF first_call_view second_call_view sample_calls idle_db_no_sessions])
  have pmix: "run_two (page_step first_page_call) (page_step second_page_call)
      [True, False, True, False] (Not_started, Not_started, idle_db) =
     (Finished [toast_success ''Booking session started successfully''],
      Finished [toast_success ''Booking session started successfully''],
      idle_db\<lparr>user_sessions_tbl := user_sessions_tbl idle_db @
          [page_session (pg_user first_page_call) (pg_new_id first_page_call)
             (pg_db_now first_page_call) (pg_bookingId first_page_call) ''u1'',
           page_session (pg_user second_page_call) (pg_new_id second_page_call)
             (pg_db_now second_page_call) (pg_bookingId second_page_call) ''u1'']\<rparr>)"
    by (rule run_two_page_interleaved [OF sample_page_calls(1) sample_page_calls(2) _
          sample_page_calls(3) sample_page_calls(4) sample_page_calls(5) sample_page_calls(6)
          idle_db_no_user_sessions]) simp
  show ?thesis
    unfolding mix pmix
    by (simp add: booking_sessions_append page_session_fields new_session_def
          sample_page_calls idle_db_no_active succeeded_def)
qed

text \<open>
  Claim C3, as amended. Session start is a query for an existing session followed by a
  separate insert, in both modules. Take two start handlers for the same booking whose
  store calls report no error. In the unnamed module, let the booking be in both
  operators' local lists and have no session row; in \<^verbatim>\<open>src/pages/AdminDashboard.tsx\<close>, let
  both be called with the same non-empty user id and let that user have no active
  session. When the handlers run one after the other (the schedule in which the first
  takes both its steps first), the first succeeds, the second is refused because a
  session is already active, and one active session has been added. When both queries
  run before both inserts, both handlers succeed and two active sessions have been added
  for the booking.
\<close>

theorem start_is_check_then_insert:
  "(let one = call_result c1 d;
        two = call_result c2 (snd one);
        mix = run_two (start_step c1) (start_step c2) [True, False, True, False]
                (Not_started, Not_started, d)
    in run_two (start_step c1) (start_step c2) [True, True, False, False]
         (Not_started, Not_started, d) = (Finished (fst one), Finished (fst two), snd two) \<and>
       (sc_bookingId c1 = k \<and> sc_bookingId c2 = k \<and>
        viewed_status (sc_bookings c1) k \<noteq> None \<and> viewed_status (sc_bookings c2) k \<noteq> None \<and>
        sc_check_err c1 = None \<and> sc_check_err c2 = None \<and>
        sc_insert_err c1 = None \<and> sc_insert_err c2 = None \<and>
        sessions_of_booking d k = [] \<longrightarrow>
          succeeded (fst one) \<and> \<not> failed (fst one) \<and>
          fst two = [toast_error ''Session is already active for this booking''] \<and>
          length (active_sessions_of (snd two) k) = 1 \<and>
          pc_succeeded (fst mix) \<and> pc_succeeded (fst (snd mix)) \<and>
          length (active_sessions_of (snd (snd mix)) k) = 2)) \<and>
   (let one = page_result p1 e;
        two = page_result p2 (snd one);
        mix = run_two (page_step p1) (page_step p2) [True, False, True, False]
                (Not_started, Not_started, e)
    in run_two (page_step p1) (page_step p2) [True, True, False, False]
         (Not_started, Not_started, e) = (Finished (fst one), Finished (fst two), snd two) \<and>
       (pg_bookingId p1 = j \<and> pg_bookingId p2 = j \<and>
        pg_userId p1 = Some u \<and> pg_userId p2 = Some u \<and> u \<noteq> [] \<and>
        pg_check_err p1 = None \<and> pg_check_err p2 = None \<and>
        pg_insert_err p1 = None \<and> pg_insert_err p2 = None \<and>
        active_sessions_of_user e u = [] \<longrightarrow>
          succeeded (fst one) \<and> \<not> failed (fst one) \<and>
          fst two = [toast_error ''User already has an active session''] \<and>
          length (active_sessions_of_user (snd two) u) = 1 \<and>
          length (active_sessions_of (snd two) j) = length (active_sessions_of e j) + 1 \<and>
          pc_succeeded (fst mix) \<and> pc_succeeded (fst (snd mix)) \<and>
          length (active_sessions_of_user (snd (snd mix)) u) = 2 \<and>
          length (active_sessions_of (snd (snd mix)) j) = length (active_sessions_of e j) + 2))"
  by (rule conjI [OF start_unnamed_two_calls start_page_two_calls])

theorem start_is_check_then_insert_witness:
  "viewed_status (sc_bookings first_call) ''b1'' \<noteq> None \<and>
   viewed_status (sc_bookings second_call) ''b1'' \<noteq> None \<and>
   sessions_of_booking idle_db ''b1'' = [] \<and>
   succeeded (fst (call_result first_call idle_db)) \<and>
   fst (call_result second_call (snd (call_result first_call idle_db)))
     = [toast_error ''Session is already active for this booking''] \<and>
   length (active_sessions_of (snd (call_result second_call (snd (call_result first_call idle_db))))
     ''b1'') = 1 \<and>
   pg_userId first_page_call = Some ''u1'' \<and> pg_userId second_page_call = Some ''u1'' \<and>
   active_sessions_of_user idle_db ''u1'' = [] \<and>
   succeeded (fst (page_result first_page_call idle_db)) \<and>
   fst (page_result second_page_call (snd (page_result first_page_call idle_db)))
     = [toast_error ''User already has an active session''] \<and>
   length (active_sessions_of
     (snd (page_result second_page_call (snd (page_result first_page_call idle_db)))) ''b1'') = 1"
proof -
  have v: "viewed_status (sc_bookings first_call) ''b1'' \<noteq> None"
          "viewed_status (sc_bookings second_call) ''b1'' \<noteq> None"
    by (simp_all add: viewed_status_def first_call_view second_call_view)
  show ?thesis
    using start_is_check_then_insert
        [of first_call idle_db second_call "''b1''" first_page_call idle_db second_page_call
            "''b1''" "''u1''"] v
    by (simp add: Let_def sample_calls idle_db_no_sessions sample_page_calls
          idle_db_no_user_sessions idle_db_no_active)
qed

subsection \<open>Refused starts\<close>

lemma start_not_in_view:
  "viewed_status view k = None \<Longrightarrow>
   startBookingSession user view ce ie nid t k d = (start_failed, d)"
  by (simp add: startBookingSession_def check_not_in_view)

lemma start_already_active:
  assumes "viewed_status view k \<noteq> None" and "sessions_of_booking d k = [s]" and "s_status s = Active"
  shows "startBookingSession user view None ie nid t k d =
           ([toast_error ''Session is already active for this booking''], d)"
proof -
  obtain b where "find (\<lambda>b. bid b = k) view = Some b"
    using viewed_status_Some [OF assms(1)] by blast
  then show ?thesis
    using assms by (simp add: startBookingSession_def check_one_row)
qed

lemma start_no_rows:
  assumes "viewed_status view k \<noteq> None" and "sessions_of_booking d k = []"
  shows "succeeded (fst (startBookingSession user view None None nid t k d)) \<and>
         \<not> failed (fst (startBookingSession user view None None nid t k d)) \<and>
         length (active_sessions_of (snd (startBookingSession user view None None nid t k d)) k) = 1"
proof -
  obtain b where "find (\<lambda>b. bid b = k) view = Some b"
    using viewed_status_Some [OF assms(1)] by blast
  then have "startBookingSession user view None None nid t k d =
      ([toast_success ''Booking session started successfully''],
       d\<lparr>user_sessions_tbl := user_sessions_tbl d @ [new_session user nid t k b]\<rparr>)"
    using assms by (simp add: startBookingSession_def check_no_rows insert_ok)
  then show ?thesis
    by (simp add: active_one_new [OF assms(2)] succeeded_def failed_def)
qed

lemma start_page_no_user:
  "\<not> truthy u \<Longrightarrow>
   startBookingSession_page user ce ie nid t k u d =
     ([toast_error ''Cannot start session: No user associated with this booking''], d)"
  by (simp add: startBookingSession_page_def)

lemma start_page_user_active:
  "truthy u \<Longrightarrow> active_sessions_of_user d (or_else u []) = [s] \<Longrightarrow>
   startBookingSession_page user None ie nid t k u d =
     ([toast_error ''User already has an active session''], d)"
  by (simp add: startBookingSession_page_def active_sessions_of_user_def Let_def)

lemma confirmed_view_status: "viewed_status confirmed_view ''b1'' = Some Confirmed"
  by (simp add: viewed_status_def confirmed_view_def sample_booking_def)

lemma moved_db_no_sessions: "sessions_of_booking (moved_db st) ''b1'' = []"
  by (simp add: moved_db_def sessions_of_booking_def)

lemma running_db_rows:
  "sessions_of_booking running_db ''b1'' = [sample_session ''s1'' ''b1'' Active 0]"
  by (simp add: running_db_def sessions_of_booking_def sample_session_def)

lemma two_rows_db_rows:
  "sessions_of_booking two_rows_db ''b1'' =
     [sample_session ''s0'' ''b1'' Completed 0, sample_session ''s1'' ''b1'' Active 500]"
  by (simp add: two_rows_db_def sessions_of_booking_def sample_session_def)

text \<open>
  When the booking has more than one session row, the query returns no row and the error
  code PGRST116, which the handler passes over: it inserts another active session.
\<close>

lemma start_with_two_rows:
  "length (active_sessions_of two_rows_db ''b1'') = 1 \<and>
   succeeded (fst (startBookingSession operator confirmed_view None None ''s2'' 900 ''b1'' two_rows_db)) \<and>
   length (active_sessions_of
     (snd (startBookingSession operator confirmed_view None None ''s2'' 900 ''b1'' two_rows_db)) ''b1'') = 2"
proof -
  have chk: "startBookingSession_check confirmed_view None ''b1'' two_rows_db
      = Proceed (sample_booking ''b1'' Confirmed 100 None)"
    by (simp add: startBookingSession_check_def confirmed_view_def sample_booking_def
          two_rows_db_rows [unfolded sessions_of_booking_def])
  have a: "active_sessions_of two_rows_db ''b1'' = [sample_session ''s1'' ''b1'' Active 500]"
    by (simp add: active_sessions_sub two_rows_db_rows) (simp add: sample_session_def)
  show ?thesis
    by (simp add: startBookingSession_def chk insert_ok active_sessions_append a succeeded_def)
qed

text \<open>
  The local list shows b1 as confirmed while the store holds it as cancelled: the start
  succeeds and an active session is created.
\<close>

theorem start_ignores_booking_status_counterexample:
  "viewed_status confirmed_view ''b1'' = Some Confirmed \<and>
   stored_status (moved_db Cancelled) ''b1'' = Some Cancelled \<and>
   succeeded (fst (startBookingSession operator confirmed_view None None ''s1'' 1000 ''b1''
                (moved_db Cancelled))) \<and>
   \<not> failed (fst (startBookingSession operator confirmed_view None None ''s1'' 1000 ''b1''
                (moved_db Cancelled))) \<and>
   length (active_sessions_of (snd (startBookingSession operator confirmed_view None None ''s1'' 1000
                ''b1'' (moved_db Cancelled))) ''b1'') = 1"
  using start_no_rows [of confirmed_view "''b1''" "moved_db Cancelled" operator "''s1''" 1000]
  by (simp add: confirmed_view_status moved_db_no_sessions)

text \<open>
  Claim C6, as amended. In the unnamed module a start fails when the booking is not in
  the operator's local list, and is refused as already active when the booking's only
  session row is active; in \<^verbatim>\<open>src/pages/AdminDashboard.tsx\<close> it fails when the booking has no
  user and is refused when the user's only active session row is found. No failed start
  changes the store. Neither module reads the booking's status: with the booking in the
  local list, no session row and no store error, the start succeeds and creates the
  active session whatever the status is.
\<close>

theorem start_failures_create_no_session:
  "let r = startBookingSession user view ce ie nid t k d;
       p = startBookingSession_page user ce ie nid t k userId d
   in (viewed_status view k = None \<longrightarrow> failed (fst r) \<and> \<not> succeeded (fst r)) \<and>
      (viewed_status view k \<noteq> None \<and> ce = None \<and> sessions_of_booking d k = [s] \<and>
       s_status s = Active \<longrightarrow>
         fst r = [toast_error ''Session is already active for this booking'']) \<and>
      (failed (fst r) \<longrightarrow> snd r = d) \<and>
      (viewed_status view k \<noteq> None \<and> ce = None \<and> ie = None \<and> sessions_of_booking d k = [] \<longrightarrow>
         succeeded (fst r) \<and> \<not> failed (fst r) \<and> length (active_sessions_of (snd r) k) = 1) \<and>
      (\<not> truthy userId \<longrightarrow> failed (fst p) \<and> \<not> succeeded (fst p)) \<and>
      (truthy userId \<and> ce = None \<and> active_sessions_of_user d (or_else userId []) = [s'] \<longrightarrow>
         fst p = [toast_error ''User already has an active session'']) \<and>
      (failed (fst p) \<longrightarrow> snd p = d)"
  unfolding Let_def
  using start_not_in_view [of view k user ce ie nid t d]
    start_already_active [of view k d s user ie nid t]
    start_failed_keeps_db [of user view ce ie nid t k d]
    start_no_rows [of view k d user nid t]
    start_page_no_user [of userId user ce ie nid t k d]
    start_page_user_active [of userId d s' user ie nid t k]
    start_page_failed_keeps_db [of user ce ie nid t k userId d]
  by (auto simp: start_failed_def failed_def succeeded_def)

theorem start_failures_create_no_session_witness:
  "viewed_status confirmed_view ''b1'' \<noteq> None \<and> viewed_status confirmed_view ''b9'' = None \<and>
   sessions_of_booking running_db ''b1'' = [sample_session ''s1'' ''b1'' Active 0] \<and>
   s_status (sample_session ''s1'' ''b1'' Active 0) = Active \<and>
   fst (startBookingSession operator confirmed_view None None ''s2'' 1000 ''b1'' running_db)
     = [toast_error ''Session is already active for this booking''] \<and>
   snd (startBookingSession operator confirmed_view None None ''s2'' 1000 ''b1'' running_db)
     = running_db \<and>
   failed (fst (startBookingSession operator confirmed_view None None ''s2'' 1000 ''b9'' running_db)) \<and>
   snd (startBookingSession operator confirmed_view None None ''s2'' 1000 ''b9'' running_db)
     = running_db \<and>
   \<not> truthy None \<and>
   snd (startBookingSession_page operator None None ''s2'' 1000 ''b1'' None running_db) = running_db"
proof -
  have v9: "viewed_status confirmed_view ''b9'' = None"
    by (simp add: viewed_status_def confirmed_view_def sample_booking_def)
  have act: "s_status (sample_session ''s1'' ''b1'' Active 0) = Active"
    by (simp add: sample_session_def)
  show ?thesis
    using start_failures_create_no_session
        [of operator confirmed_view None None "''s2''" 1000 "''b1''" running_db None
            "sample_session ''s1'' ''b1'' Active 0" "sample_session ''s1'' ''b1'' Active 0"]
      start_failures_create_no_session
        [of operator confirmed_view None None "''s2''" 1000 "''b9''" running_db None
            "sample_session ''s1'' ''b1'' Active 0" "sample_session ''s1'' ''b1'' Active 0"]
    by (simp add: Let_def confirmed_view_status v9 running_db_rows act failed_def)
qed

end
